theory Spec2Isabelle
  imports Complex_Main "HOL-Library.AList" "HOL-Library.Sublist"
    "HOL-Library.Char_ord" "HOL-Library.List_Lexorder"
begin

section \<open>The JavaScript runtime, as far as the gateway uses it\<close>

text \<open>
  A number is the real value of a double; \<open>NaN\<close> is a separate value where the
  source tests for it, and the infinities are not modelled. Comparisons, \<^verbatim>\<open>Math.min\<close>,
  \<^verbatim>\<open>Math.max\<close> and \<^verbatim>\<open>Math.abs\<close> are exact on doubles. The box of a near-me query is
  derived by divisions, a product, sums and differences whose results are rounded; there
  every operation is the exact one followed by \<open>fl64\<close>, the rounding to the nearest
  double. Integer-valued identifiers (MMSI, IMO, port ids, HTTP status codes) and the
  millisecond clock are integers. Strings are lists of ASCII characters.
\<close>

datatype number = NaN | Num real

fun isNaN :: "number \<Rightarrow> bool" where
  "isNaN NaN = True"
| "isNaN (Num _) = False"

text \<open>\<^verbatim>\<open>Math.round\<close>: the nearest integer, ties towards plus infinity.\<close>

definition Math_round :: "real \<Rightarrow> real" where
  "Math_round x = of_int \<lfloor>x + 1 / 2\<rfloor>"

text \<open>
  Rounding to the nearest double (IEEE 754 binary64), ties to the even significand. A
  value is scaled by a power of two until its integer part has 53 bits, rounded to an
  integer and scaled back; the scale stops at the least exponent of the format, which
  gives the subnormal numbers their fixed spacing. Overflow to infinity is not modelled.
\<close>

definition rne :: "real \<Rightarrow> real" where
  "rne m =
     (let f = \<lfloor>m\<rfloor>; d = m - of_int f
      in if d < 1 / 2 then of_int f
         else if 1 / 2 < d then of_int (f + 1)
         else if even f then of_int f else of_int (f + 1))"

fun doublings :: "nat \<Rightarrow> real \<Rightarrow> nat" where
  "doublings 0 x = 0"
| "doublings (Suc n) x = (if x < 2 ^ 52 then Suc (doublings n (2 * x)) else 0)"

fun halvings :: "nat \<Rightarrow> real \<Rightarrow> nat" where
  "halvings 0 x = 0"
| "halvings (Suc n) x = (if 2 ^ 53 \<le> x then Suc (halvings n (x / 2)) else 0)"

definition fl_pos :: "real \<Rightarrow> real" where
  "fl_pos x =
     (if x < 2 ^ 53
      then (let k = doublings 1074 x in rne (x * 2 ^ k) / 2 ^ k)
      else (let j = halvings 971 x in rne (x / 2 ^ j) * 2 ^ j))"

definition fl64 :: "real \<Rightarrow> real" where
  "fl64 x = (if x < 0 then - fl_pos (- x) else fl_pos x)"

text \<open>The doubles that \<^verbatim>\<open>Math.PI\<close> and the literal \<^verbatim>\<open>0.1\<close> denote.\<close>

definition Math_PI :: real where
  "Math_PI = 884279719003555 / 281474976710656"

definition one_tenth :: real where
  "one_tenth = 3602879701896397 / 36028797018963968"

text \<open>\<^verbatim>\<open>String(n)\<close> on an integer: its decimal digits.\<close>

definition digit_char :: "nat \<Rightarrow> char" where
  "digit_char d = ''0123456789'' ! d"

function String_nat :: "nat \<Rightarrow> string" where
  "String_nat n = (if n < 10 then [digit_char n] else String_nat (n div 10) @ [digit_char (n mod 10)])"
  by pat_completeness auto
termination
  by (relation "measure id") auto

declare String_nat.simps [simp del]

definition String_int :: "int \<Rightarrow> string" where
  "String_int i = (if i < 0 then CHR ''-'' # String_nat (nat (- i)) else String_nat (nat i))"

text \<open>\<^verbatim>\<open>Array.prototype.join\<close> on strings.\<close>

fun join :: "string \<Rightarrow> string list \<Rightarrow> string" where
  "join sep [] = []"
| "join sep [x] = x"
| "join sep (x # y # ys) = x @ sep @ join sep (y # ys)"

text \<open>\<^verbatim>\<open>String.prototype.split(c)\<close> with a one-character separator: the pieces between
  the separators, one piece (the empty string) for the empty string.\<close>

fun split_on :: "char \<Rightarrow> string \<Rightarrow> string list" where
  "split_on c [] = [[]]"
| "split_on c (x # xs) =
     (if x = c then [] # split_on c xs
      else (case split_on c xs of
              [] \<Rightarrow> [[x]]
            | p # ps \<Rightarrow> (x # p) # ps))"

definition isWhiteSpace :: "char \<Rightarrow> bool" where
  "isWhiteSpace c = (of_char c \<in> {9, 10, 11, 12, 13, 32 :: nat})"

definition trim :: "string \<Rightarrow> string" where
  "trim s = rev (dropWhile isWhiteSpace (rev (dropWhile isWhiteSpace s)))"

definition isDigit :: "char \<Rightarrow> bool" where
  "isDigit c = (48 \<le> (of_char c :: nat) \<and> (of_char c :: nat) \<le> 57)"

definition isUpper :: "char \<Rightarrow> bool" where
  "isUpper c = (65 \<le> (of_char c :: nat) \<and> (of_char c :: nat) \<le> 90)"

definition isLower :: "char \<Rightarrow> bool" where
  "isLower c = (97 \<le> (of_char c :: nat) \<and> (of_char c :: nat) \<le> 122)"

definition isLetter :: "char \<Rightarrow> bool" where
  "isLetter c = (isUpper c \<or> isLower c)"

definition toUpperCase :: "string \<Rightarrow> string" where
  "toUpperCase s = map (\<lambda>c. if isLower c then char_of (of_char c - (32 :: nat)) else c) s"

definition toLowerCase :: "string \<Rightarrow> string" where
  "toLowerCase s = map (\<lambda>c. if isUpper c then char_of (of_char c + (32 :: nat)) else c) s"

definition startsWith :: "string \<Rightarrow> string \<Rightarrow> bool" where
  "startsWith s p = (take (length p) s = p)"

text \<open>\<^verbatim>\<open>Number(s)\<close> on a string of decimal digits.\<close>

definition digits_value :: "string \<Rightarrow> nat" where
  "digits_value s = foldl (\<lambda>acc c. 10 * acc + (of_char c - 48)) 0 s"

text \<open>\<^verbatim>\<open>Number(s)\<close> on a non-empty string of decimal digits, as an integer: the double
  nearest to the integer the digits denote, which is that integer when it is below 2^53
  (as for \<open>fl64\<close>, without the overflow to infinity).\<close>

definition Number_digits :: "string \<Rightarrow> int" where
  "Number_digits s = \<lfloor>fl64 (real (digits_value s))\<rfloor>"

text \<open>\<^verbatim>\<open>Array.prototype.slice(0, n)\<close> for a count \<open>n\<close> is \<^const>\<open>take\<close>.\<close>

section \<open>Configuration and the outside world\<close>

text \<open>
  The environment variables the modules read at load time, the clock and the upstream
  provider are parameters. The \<open>k\<close>-th reading of \<^verbatim>\<open>Date.now()\<close> is \<open>Date_now env k\<close>,
  and the answer to the \<open>k\<close>-th HTTP call is \<open>fetch env k path params\<close>, so every
  sequence of clock readings and of upstream responses is covered.
  \<^verbatim>\<open>String\<close> on a number that is not an identifier, \<^verbatim>\<open>Number\<close> on a coordinate
  string and \<^verbatim>\<open>Math.cos\<close>, whose accuracy the language leaves to the implementation,
  are the runtime's and are parameters as well.
\<close>

datatype MstResponseType = simple | extended

record MstZoneVessel =
  zv_vessel_name :: string
  zv_mmsi :: "int option"
  zv_imo :: "int option"
  zv_vtype :: "int option"
  zv_lat :: real
  zv_lng :: real
  zv_course :: "real option"
  zv_speed :: "real option"
  zv_nav_status :: "string option"
  zv_received :: string

record MstPortSearchResult =
  ps_port_id :: int
  ps_name :: string
  ps_unloco :: string
  ps_port_type :: string
  ps_country :: string

record MstPortVessel =
  pv_mmsi :: "int option"
  pv_imo :: "int option"
  pv_name :: string
  pv_arrived :: "string option"
  pv_vtype :: "int option"
  pv_vessel_type :: "string option"
  pv_flag :: "string option"

text \<open>
  The \<open>data\<close> field of an upstream envelope. \<^verbatim>\<open>request<T>\<close> casts it to the
  type the endpoint declares without a check; the model keeps the shapes of the three
  endpoints the planner uses, and \<open>NoData\<close> for a missing or \<^verbatim>\<open>null\<close> data field.
\<close>

datatype mst_data =
    ZoneVessels "MstZoneVessel list"
  | PortSearchResults "MstPortSearchResult list"
  | PortVessels "MstPortVessel list"
  | NoData

text \<open>JavaScript truthiness of a payload: every array is truthy, \<^verbatim>\<open>null\<close> and
  \<^verbatim>\<open>undefined\<close> are not.\<close>

fun truthy :: "mst_data \<Rightarrow> bool" where
  "truthy NoData = False"
| "truthy _ = True"

record MstEnvelope =
  env_status :: "string option"
  env_data :: mst_data
  env_message :: "string option"
  env_code :: "string option"

text \<open>The body of a response as \<^verbatim>\<open>JSON.parse\<close> sees it: text that does not parse (with
  the parser's message), the JSON value \<^verbatim>\<open>null\<close>, or an envelope.\<close>

datatype body = Malformed string | JsonNull | Envelope MstEnvelope

record http_response =
  ok :: bool
  http_status :: int
  http_body :: body

datatype fetch_result = NetworkError string | Response http_response

record env =
  MST_API_KEY :: "string option"
  DEFAULT_MINUTES_BACK :: real
  MAX_LAT_SPAN :: real
  MAX_LON_SPAN :: real
  MAX_RESULTS :: nat
  MAX_PORT_VESSELS :: nat
  Date_now :: "nat \<Rightarrow> int"
  fetch :: "nat \<Rightarrow> string \<Rightarrow> (string \<times> string) list \<Rightarrow> fetch_result"
  String_number :: "real \<Rightarrow> string"
  Number_string :: "string \<Rightarrow> number"
  Math_cos :: "real \<Rightarrow> real"

text \<open>Every \<^verbatim>\<open>throw\<close> of the modelled code is a value of this type.\<close>

datatype error =
    MissingApiKey
  | NetworkFailure string
  | ParseFailure string string
  | RequestFailed string string
  | TypeError
  | MissingIdentifier
  | BoxTooLarge real real

section \<open>services/mstClient.ts\<close>

record CacheEntry =
  expiresAt :: int
  payload :: mst_data

text \<open>\<^verbatim>\<open>ZoneQuery\<close> has the four fields of the planner's \<^verbatim>\<open>BoundingBox\<close> and two
  optional ones, so it is modelled as an extension of that record.\<close>

record BoundingBox =
  minLat :: real
  maxLat :: real
  minLon :: real
  maxLon :: real

record ZoneQuery = BoundingBox +
  minutesBack :: "real option"
  response :: "MstResponseType option"

text \<open>The mutable state of the process: the client's cache, and the record of what
  has happened so far, the number of clock readings taken, the HTTP calls issued and the
  zone queries handed to \<^verbatim>\<open>getVesselsInZone\<close>, each in order.\<close>

record world =
  cache :: "string \<rightharpoonup> CacheEntry"
  clock_reads :: nat
  http_log :: "(string \<times> (string \<times> string) list) list"
  zone_log :: "ZoneQuery list"

definition now :: "env \<Rightarrow> world \<Rightarrow> int \<times> world" where
  "now env w = (Date_now env (clock_reads w), w\<lparr>clock_reads := Suc (clock_reads w)\<rparr>)"

text \<open>A value of a parameter record: \<^verbatim>\<open>string | number | undefined\<close>.\<close>

datatype pvalue = PStr string | PNum real | PInt int | PUndef

fun String_pvalue :: "env \<Rightarrow> pvalue \<Rightarrow> string" where
  "String_pvalue env (PStr s) = s"
| "String_pvalue env (PNum r) = String_number env r"
| "String_pvalue env (PInt i) = String_int i"
| "String_pvalue env PUndef = ''undefined''"

definition buildCacheKey :: "string \<Rightarrow> (string \<times> string) list option \<Rightarrow> string" where
  "buildCacheKey path params =
     (case params of
        None \<Rightarrow> path
      | Some ps \<Rightarrow>
          (let keys = sort (map fst ps);
               serialized = join ''|''
                 (map (\<lambda>key. key @ '':'' @ (case map_of ps key of None \<Rightarrow> '''' | Some v \<Rightarrow> v)) keys)
           in path @ ''?'' @ serialized))"

definition readCache :: "env \<Rightarrow> string \<Rightarrow> world \<Rightarrow> mst_data option \<times> world" where
  "readCache env key w =
     (case cache w key of
        None \<Rightarrow> (None, w)
      | Some entry \<Rightarrow>
          (let (t, w1) = now env w in
           if expiresAt entry < t
           then (None, w1\<lparr>cache := (cache w1)(key := None)\<rparr>)
           else (Some (payload entry), w1)))"

definition writeCache :: "env \<Rightarrow> string \<Rightarrow> mst_data \<Rightarrow> int \<Rightarrow> world \<Rightarrow> world" where
  "writeCache env key p ttlMs w =
     (if ttlMs \<le> 0 then w
      else (let (t, w1) = now env w in
            w1\<lparr>cache := (cache w1)(key \<mapsto> \<lparr>expiresAt = t + ttlMs, payload = p\<rparr>)\<rparr>))"

definition sanitizeParams :: "env \<Rightarrow> (string \<times> pvalue) list option \<Rightarrow> (string \<times> string) list" where
  "sanitizeParams env params =
     (case params of
        None \<Rightarrow> []
      | Some entries \<Rightarrow>
          foldl (\<lambda>acc (key, v). if v = PUndef then acc else AList.update key (String_pvalue env v) acc)
            [] entries)"

definition apiKey :: "env \<Rightarrow> error + string" where
  "apiKey env =
     (case MST_API_KEY env of
        None \<Rightarrow> Inl MissingApiKey
      | Some k \<Rightarrow> if k = [] then Inl MissingApiKey else Inr k)"

text \<open>
  \<^verbatim>\<open>request\<close>: look the key up when the call is cacheable; otherwise one GET, whose
  result is parsed and validated, and cached on success. The call is recorded in
  \<open>http_log\<close> by its path and sanitized parameters.
\<close>

definition request ::
  "env \<Rightarrow> string \<Rightarrow> (string \<times> pvalue) list option \<Rightarrow> int \<Rightarrow> world \<Rightarrow> (error + mst_data) \<times> world" where
  "request env path params cacheMs w =
     (let normalizedParams = sanitizeParams env params;
          cacheKey = buildCacheKey path (Some normalizedParams);
          (cached, w1) = (if cacheMs > 0 then readCache env cacheKey w else (None, w));
          hit = (case cached of None \<Rightarrow> None | Some c \<Rightarrow> if truthy c then Some c else None)
      in case hit of
           Some c \<Rightarrow> (Inr c, w1)
         | None \<Rightarrow>
            (case apiKey env of
               Inl e \<Rightarrow> (Inl e, w1)
             | Inr key \<Rightarrow>
                (let w2 = w1\<lparr>http_log := http_log w1 @ [(path, normalizedParams)]\<rparr> in
                 case fetch env (length (http_log w1)) path normalizedParams of
                   NetworkError m \<Rightarrow> (Inl (NetworkFailure m), w2)
                 | Response r \<Rightarrow>
                    (case http_body r of
                       Malformed m \<Rightarrow> (Inl (ParseFailure path m), w2)
                     | JsonNull \<Rightarrow> (Inl TypeError, w2)
                     | Envelope p \<Rightarrow>
                        if \<not> ok r \<or> env_status p \<noteq> Some ''success''
                        then (Inl (RequestFailed
                                (case env_code p of None \<Rightarrow> String_int (http_status r) | Some c \<Rightarrow> c)
                                (case env_message p of None \<Rightarrow> ''Unknown error'' | Some m \<Rightarrow> m)), w2)
                        else (Inr (env_data p),
                              if cacheMs > 0 then writeCache env cacheKey (env_data p) cacheMs w2 else w2)))))"

fun String_response :: "MstResponseType \<Rightarrow> string" where
  "String_response simple = ''simple''"
| "String_response extended = ''extended''"

text \<open>The parameter object \<^verbatim>\<open>getVesselsInZone\<close> builds; \<^verbatim>\<open>minutesBack\<close> is added
  only when it is truthy (present and not zero).\<close>

definition zoneParams :: "ZoneQuery \<Rightarrow> (string \<times> pvalue) list" where
  "zoneParams query =
     [(''minlat'', PNum (minLat query)),
      (''maxlat'', PNum (maxLat query)),
      (''minlon'', PNum (minLon query)),
      (''maxlon'', PNum (maxLon query)),
      (''response'', PStr (String_response (case response query of None \<Rightarrow> simple | Some r \<Rightarrow> r)))]
     @ (case minutesBack query of
          None \<Rightarrow> []
        | Some m \<Rightarrow> if m = 0 then [] else [(''minutesBack'', PNum m)])"

text \<open>The unchecked casts of \<^verbatim>\<open>request<T>\<close>: a payload of the declared shape is
  passed on; any other payload is outside the typed contract of the endpoint, and the
  first use of it as an array is modelled as a \<open>TypeError\<close>.\<close>

fun asZoneVessels :: "mst_data \<Rightarrow> error + MstZoneVessel list" where
  "asZoneVessels (ZoneVessels vs) = Inr vs"
| "asZoneVessels _ = Inl TypeError"

fun asPortSearchResults :: "mst_data \<Rightarrow> error + MstPortSearchResult list" where
  "asPortSearchResults (PortSearchResults ps) = Inr ps"
| "asPortSearchResults _ = Inl TypeError"

fun asPortVessels :: "mst_data \<Rightarrow> error + MstPortVessel list" where
  "asPortVessels (PortVessels vs) = Inr vs"
| "asPortVessels _ = Inl TypeError"

definition typed :: "(mst_data \<Rightarrow> error + 'a) \<Rightarrow> (error + mst_data) \<times> world \<Rightarrow> (error + 'a) \<times> world" where
  "typed cast r = (case r of (Inl e, w) \<Rightarrow> (Inl e, w) | (Inr d, w) \<Rightarrow> (cast d, w))"

definition getVesselsInZone :: "env \<Rightarrow> ZoneQuery \<Rightarrow> world \<Rightarrow> (error + MstZoneVessel list) \<times> world" where
  "getVesselsInZone env query w =
     typed asZoneVessels
       (request env ''vessel/zone'' (Some (zoneParams query)) 300000
          (w\<lparr>zone_log := zone_log w @ [query]\<rparr>))"

definition searchPorts :: "env \<Rightarrow> string \<Rightarrow> world \<Rightarrow> (error + MstPortSearchResult list) \<times> world" where
  "searchPorts env name w =
     typed asPortSearchResults (request env ''port/search'' (Some [(''name'', PStr name)]) (5 * 60 * 1000) w)"

record PortReference =
  portId :: "int option"
  unloco :: "string option"
  ref_name :: "string option"

text \<open>\<^verbatim>\<open>mstClient.getVesselsInPort\<close>; the planner's function of the same name is
  \<open>getVesselsInPort\<close> below.\<close>

definition client_getVesselsInPort ::
  "env \<Rightarrow> PortReference \<Rightarrow> world \<Rightarrow> (error + MstPortVessel list) \<times> world" where
  "client_getVesselsInPort env options w =
     (let port_id = (case portId options of None \<Rightarrow> [] | Some n \<Rightarrow> if n = 0 then [] else [(''port_id'', PNum (of_int n))]);
          unloco_code = (case unloco options of None \<Rightarrow> [] | Some u \<Rightarrow> if u = [] then [] else [(''unloco'', PStr u)])
      in if port_id = [] \<and> unloco_code = [] then (Inl MissingIdentifier, w)
         else typed asPortVessels (request env ''port/inport'' (Some (port_id @ unloco_code)) 60000 w))"

record BulkStatusQuery =
  bulk_mmsi :: "string list option"
  bulk_imo :: "string list option"
  bulk_response :: "MstResponseType option"
  bulk_src :: "string option"

definition sanitizeList :: "string list option \<Rightarrow> string" where
  "sanitizeList list =
     join '','' (take 100 (filter (\<lambda>v. length v > 0)
       (map trim (case list of None \<Rightarrow> [] | Some l \<Rightarrow> l))))"

definition getBulkVesselStatus ::
  "env \<Rightarrow> BulkStatusQuery \<Rightarrow> world \<Rightarrow> (error + MstZoneVessel list) \<times> world" where
  "getBulkVesselStatus env query w =
     (let hasMmsi = (case bulk_mmsi query of None \<Rightarrow> False | Some l \<Rightarrow> l \<noteq> []);
          hasImo = (case bulk_imo query of None \<Rightarrow> False | Some l \<Rightarrow> l \<noteq> [])
      in if \<not> hasMmsi \<and> \<not> hasImo then (Inl MissingIdentifier, w)
         else typed asZoneVessels
           (request env ''vessel/bulk''
              (Some ([(''response'', PStr (String_response (case bulk_response query of None \<Rightarrow> simple | Some r \<Rightarrow> r)))]
                   @ (if hasMmsi then [(''mmsi'', PStr (sanitizeList (bulk_mmsi query)))] else [])
                   @ (if hasImo then [(''imo'', PStr (sanitizeList (bulk_imo query)))] else [])
                   @ (case bulk_src query of None \<Rightarrow> [] | Some src \<Rightarrow> if src = [] then [] else [(''src'', PStr src)])))
              5000 w))"

section \<open>utils/shipTransform.ts\<close>

record ShipSummary =
  ss_name :: string
  ss_id :: string
  ss_lat :: number
  ss_lon :: number
  ss_timestamp :: string
  ss_mmsi :: string
  ss_imo :: string
  ss_callsign :: string
  ss_speed :: real
  ss_area :: string
  ss_type :: string
  ss_country :: string
  ss_destination :: string
  ss_port_current :: string
  ss_port_next :: string
  ss_course :: "real option"
  ss_nav_status :: "string option"
  ss_source :: string

text \<open>An optional identifier is truthy when it is present and not zero.\<close>

fun truthy_id :: "int option \<Rightarrow> bool" where
  "truthy_id None = False"
| "truthy_id (Some n) = (n \<noteq> 0)"

fun String_id :: "int option \<Rightarrow> string" where
  "String_id None = ''undefined''"
| "String_id (Some n) = String_int n"

text \<open>\<^verbatim>\<open>buildShipId\<close> reads the clock in its last fallback only.\<close>

definition buildShipId :: "env \<Rightarrow> int option \<Rightarrow> int option \<Rightarrow> string \<Rightarrow> string \<Rightarrow> world \<Rightarrow> string \<times> world" where
  "buildShipId env mmsi imo nm timestamp w =
     (if truthy_id mmsi then (String_id mmsi, w)
      else if truthy_id imo then (String_id imo, w)
      else (let fallback = join ''-'' (filter (\<lambda>s. s \<noteq> []) [nm, timestamp]) in
            if fallback \<noteq> [] then (fallback, w)
            else (let (t, w1) = now env w in (''ship-'' @ String_int t, w1))))"

definition mapZoneVesselToShip :: "env \<Rightarrow> MstZoneVessel \<Rightarrow> world \<Rightarrow> ShipSummary \<times> world" where
  "mapZoneVesselToShip env vessel w =
     (let (i, w1) = buildShipId env (zv_mmsi vessel) (zv_imo vessel) (zv_vessel_name vessel) (zv_received vessel) w in
      (\<lparr>ss_name = zv_vessel_name vessel,
        ss_id = i,
        ss_lat = Num (zv_lat vessel),
        ss_lon = Num (zv_lng vessel),
        ss_timestamp = zv_received vessel,
        ss_mmsi = (if truthy_id (zv_mmsi vessel) then String_id (zv_mmsi vessel) else []),
        ss_imo = (if truthy_id (zv_imo vessel) then String_id (zv_imo vessel) else []),
        ss_callsign = [],
        ss_speed = (case zv_speed vessel of None \<Rightarrow> 0 | Some v \<Rightarrow> v),
        ss_area = [],
        ss_type = (if truthy_id (zv_vtype vessel) then String_id (zv_vtype vessel) else []),
        ss_country = [],
        ss_destination = [],
        ss_port_current = [],
        ss_port_next = [],
        ss_course = zv_course vessel,
        ss_nav_status = zv_nav_status vessel,
        ss_source = ''myshiptracking.com''\<rparr>, w1))"

definition mapPortVesselToShip :: "env \<Rightarrow> MstPortVessel \<Rightarrow> world \<Rightarrow> ShipSummary \<times> world" where
  "mapPortVesselToShip env vessel w =
     (let arrived = (case pv_arrived vessel of None \<Rightarrow> [] | Some a \<Rightarrow> a);
          (i, w1) = buildShipId env (pv_mmsi vessel) (pv_imo vessel) (pv_name vessel) arrived w in
      (\<lparr>ss_name = pv_name vessel,
        ss_id = i,
        ss_lat = NaN,
        ss_lon = NaN,
        ss_timestamp = arrived,
        ss_mmsi = (if truthy_id (pv_mmsi vessel) then String_id (pv_mmsi vessel) else []),
        ss_imo = (if truthy_id (pv_imo vessel) then String_id (pv_imo vessel) else []),
        ss_callsign = [],
        ss_speed = 0,
        ss_area = [],
        ss_type = (case pv_vessel_type vessel of
                     Some t \<Rightarrow> t
                   | None \<Rightarrow> if truthy_id (pv_vtype vessel) then String_id (pv_vtype vessel) else []),
        ss_country = (case pv_flag vessel of None \<Rightarrow> [] | Some f \<Rightarrow> f),
        ss_destination = [],
        ss_port_current = [],
        ss_port_next = [],
        ss_course = None,
        ss_nav_status = None,
        ss_source = ''myshiptracking.com''\<rparr>, w1))"

section \<open>legacy/area.ts\<close>

record QueryOptions =
  opt_minutesBack :: "number option"

definition AREA_PRESETS :: "(string \<times> BoundingBox) list" where
  "AREA_PRESETS =
     [(''WMED'', \<lparr>minLat = 34, maxLat = 42, minLon = - 6, maxLon = 15\<rparr>),
      (''EMED'', \<lparr>minLat = 30, maxLat = 42, minLon = 15, maxLon = 36\<rparr>),
      (''CMED'', \<lparr>minLat = 32, maxLat = 40, minLon = 10, maxLon = 24\<rparr>),
      (''BSEA'', \<lparr>minLat = 40, maxLat = 47, minLon = 27, maxLon = 42\<rparr>),
      (''CARIB'', \<lparr>minLat = 10, maxLat = 22, minLon = - 88, maxLon = - 60\<rparr>)]"

definition WMED :: BoundingBox where
  "WMED = \<lparr>minLat = 34, maxLat = 42, minLon = - 6, maxLon = 15\<rparr>"

definition clampNumber :: "real \<Rightarrow> real \<Rightarrow> real \<Rightarrow> real" where
  "clampNumber v lo hi = min (max v lo) hi"

definition latSpan :: "BoundingBox \<Rightarrow> real" where
  "latSpan box = \<bar>max (minLat box) (maxLat box) - min (minLat box) (maxLat box)\<bar>"

definition lonSpan :: "BoundingBox \<Rightarrow> real" where
  "lonSpan box = \<bar>max (minLon box) (maxLon box) - min (minLon box) (maxLon box)\<bar>"

definition normalizeBox :: "env \<Rightarrow> BoundingBox \<Rightarrow> error + BoundingBox" where
  "normalizeBox env box =
     (let minLat' = min (minLat box) (maxLat box);
          maxLat' = max (minLat box) (maxLat box);
          minLon' = min (minLon box) (maxLon box);
          maxLon' = max (minLon box) (maxLon box)
      in if latSpan box > MAX_LAT_SPAN env \<or> lonSpan box > MAX_LON_SPAN env
         then Inl (BoxTooLarge (latSpan box) (lonSpan box))
         else Inr \<lparr>minLat = clampNumber minLat' (- 90) 90,
                   maxLat = clampNumber maxLat' (- 90) 90,
                   minLon = clampNumber minLon' (- 180) 180,
                   maxLon = clampNumber maxLon' (- 180) 180\<rparr>)"

text \<open>\<^verbatim>\<open>parseBoundingBoxToken\<close>. The four values are accepted when there are exactly
  four of them and none is \<open>NaN\<close>, which is the pattern of the last \<open>case\<close> below.\<close>

definition parseBoundingBoxToken :: "env \<Rightarrow> string \<Rightarrow> BoundingBox option" where
  "parseBoundingBoxToken env token =
     (let trimmed = trim token in
      if trimmed = [] then None
      else (case map_of AREA_PRESETS (toUpperCase trimmed) of
              Some preset \<Rightarrow> Some preset
            | None \<Rightarrow>
               if startsWith (toLowerCase trimmed) ''bbox:''
               then (case take 2 (split_on CHR '':'' trimmed) of
                       [_, coords] \<Rightarrow>
                         (case map (Number_string env) (split_on CHR ''|'' coords) of
                            [Num v0, Num v1, Num v2, Num v3] \<Rightarrow>
                              Some \<lparr>minLat = v0, maxLat = v2, minLon = v1, maxLon = v3\<rparr>
                          | _ \<Rightarrow> None)
                     | _ \<Rightarrow> None)
               else None))"

text \<open>The tokens of an area expression, as \<^verbatim>\<open>tokenizeAreaExpression\<close> cuts them.\<close>

definition areaTokens :: "string \<Rightarrow> string list" where
  "areaTokens expression = filter (\<lambda>t. t \<noteq> []) (map trim (split_on CHR '','' expression))"

text \<open>\<^verbatim>\<open>Array.prototype.map\<close> with a callback that may throw: the first failure, in
  order, aborts the whole map.\<close>

fun mapE :: "('a \<Rightarrow> error + 'b) \<Rightarrow> 'a list \<Rightarrow> error + 'b list" where
  "mapE f [] = Inr []"
| "mapE f (x # xs) =
     (case f x of
        Inl e \<Rightarrow> Inl e
      | Inr y \<Rightarrow> (case mapE f xs of Inl e \<Rightarrow> Inl e | Inr ys \<Rightarrow> Inr (y # ys)))"

definition tokenizeAreaExpression :: "env \<Rightarrow> string \<Rightarrow> error + BoundingBox list" where
  "tokenizeAreaExpression env expression =
     (if expression = [] then Inr [WMED]
      else (case mapE (normalizeBox env)
                   (List.map_filter (parseBoundingBoxToken env) (areaTokens expression)) of
              Inl e \<Rightarrow> Inl e
            | Inr boxes \<Rightarrow> Inr (if boxes \<noteq> [] then boxes else [WMED])))"

definition formatMinutesBack :: "env \<Rightarrow> number option \<Rightarrow> real" where
  "formatMinutesBack env mb =
     (case mb of
        None \<Rightarrow> DEFAULT_MINUTES_BACK env
      | Some NaN \<Rightarrow> DEFAULT_MINUTES_BACK env
      | Some (Num v) \<Rightarrow>
          if v = 0 then DEFAULT_MINUTES_BACK env
          else clampNumber (Math_round v) 60 720)"

definition mapZoneResults :: "env \<Rightarrow> ShipSummary list \<Rightarrow> ShipSummary list" where
  "mapZoneResults env vessels =
     take (MAX_RESULTS env) (filter (\<lambda>ship. \<not> isNaN (ss_lat ship) \<and> \<not> isNaN (ss_lon ship)) vessels)"

text \<open>The \<^verbatim>\<open>Map<string, ShipSummary>\<close> of the area search, in insertion order.\<close>

type_synonym dedup = "(string \<times> ShipSummary) list"

definition dedup_has :: "dedup \<Rightarrow> string \<Rightarrow> bool" where
  "dedup_has d k = (k \<in> set (map fst d))"

text \<open>The body of \<^verbatim>\<open>vessels.forEach\<close> in \<^verbatim>\<open>fetchVesselsInArea\<close>.\<close>

fun forEachVessel :: "env \<Rightarrow> MstZoneVessel list \<Rightarrow> dedup \<Rightarrow> world \<Rightarrow> dedup \<times> world" where
  "forEachVessel env [] d w = (d, w)"
| "forEachVessel env (vessel # vessels) d w =
     (case mapZoneVesselToShip env vessel w of
        (mapped, w1) \<Rightarrow>
          forEachVessel env vessels
            (if \<not> dedup_has d (ss_id mapped) then d @ [(ss_id mapped, mapped)] else d) w1)"

definition areaQuery :: "BoundingBox \<Rightarrow> real \<Rightarrow> ZoneQuery" where
  "areaQuery box mb =
     \<lparr>minLat = minLat box, maxLat = maxLat box, minLon = minLon box, maxLon = maxLon box,
      minutesBack = Some mb, response = Some simple\<rparr>"

text \<open>The \<^verbatim>\<open>for (const box of boxes)\<close> loop of \<^verbatim>\<open>fetchVesselsInArea\<close>.\<close>

fun areaLoop :: "env \<Rightarrow> real \<Rightarrow> BoundingBox list \<Rightarrow> dedup \<Rightarrow> world \<Rightarrow> (error + dedup) \<times> world" where
  "areaLoop env mb [] d w = (Inr d, w)"
| "areaLoop env mb (box # boxes) d w =
     (case getVesselsInZone env (areaQuery box mb) w of
        (Inl e, w1) \<Rightarrow> (Inl e, w1)
      | (Inr vessels, w1) \<Rightarrow>
          (case forEachVessel env vessels d w1 of
             (d1, w2) \<Rightarrow>
               if length d1 \<ge> MAX_RESULTS env then (Inr d1, w2)
               else areaLoop env mb boxes d1 w2))"

definition fetchVesselsInArea ::
  "env \<Rightarrow> string \<Rightarrow> QueryOptions \<Rightarrow> world \<Rightarrow> (error + ShipSummary list) \<times> world" where
  "fetchVesselsInArea env expression options w =
     (case tokenizeAreaExpression env expression of
        Inl e \<Rightarrow> (Inl e, w)
      | Inr boxes \<Rightarrow>
          (case areaLoop env (formatMinutesBack env (opt_minutesBack options)) boxes [] w of
             (Inl e, w1) \<Rightarrow> (Inl e, w1)
           | (Inr d, w1) \<Rightarrow> (Inr (mapZoneResults env (map snd d)), w1)))"

text \<open>The deltas of a near-me box, each operation rounded to a double as it is
  evaluated. The radius, latitude and longitude are finite numbers: the route rejects
  \<open>NaN\<close> before the call.\<close>

definition nauticalMilesToLatDelta :: "real \<Rightarrow> real" where
  "nauticalMilesToLatDelta distanceNm = fl64 (distanceNm / 60)"

text \<open>The cosine factor of \<^verbatim>\<open>nauticalMilesToLonDelta\<close>, its local \<^verbatim>\<open>safeCos\<close>.\<close>

definition safeCos :: "env \<Rightarrow> real \<Rightarrow> real" where
  "safeCos env latitude =
     (let radians = fl64 (fl64 (latitude * Math_PI) / 180)
      in max (Math_cos env radians) one_tenth)"

definition nauticalMilesToLonDelta :: "env \<Rightarrow> real \<Rightarrow> real \<Rightarrow> real" where
  "nauticalMilesToLonDelta env distanceNm latitude =
     fl64 (distanceNm / fl64 (60 * safeCos env latitude))"

text \<open>The query object that \<^verbatim>\<open>fetchVesselsNearMe\<close> builds.\<close>

definition nearMeQuery :: "env \<Rightarrow> real \<Rightarrow> real \<Rightarrow> real \<Rightarrow> QueryOptions \<Rightarrow> ZoneQuery" where
  "nearMeQuery env lat lon distance options =
     (let safeDistance = clampNumber distance 1 50;
          mb = formatMinutesBack env (opt_minutesBack options);
          latDelta = nauticalMilesToLatDelta safeDistance;
          lonDelta = nauticalMilesToLonDelta env safeDistance lat
      in \<lparr>minLat = fl64 (lat - latDelta), maxLat = fl64 (lat + latDelta),
          minLon = fl64 (lon - lonDelta), maxLon = fl64 (lon + lonDelta),
          minutesBack = Some mb, response = Some simple\<rparr>)"

text \<open>\<^verbatim>\<open>vessels.map(mapZoneVesselToShip)\<close>, the clock threaded through.\<close>

fun mapVessels :: "env \<Rightarrow> MstZoneVessel list \<Rightarrow> world \<Rightarrow> ShipSummary list \<times> world" where
  "mapVessels env [] w = ([], w)"
| "mapVessels env (vessel # vessels) w =
     (case mapZoneVesselToShip env vessel w of
        (mapped, w1) \<Rightarrow>
          (case mapVessels env vessels w1 of
             (rest, w2) \<Rightarrow> (mapped # rest, w2)))"

definition fetchVesselsNearMe ::
  "env \<Rightarrow> real \<Rightarrow> real \<Rightarrow> real \<Rightarrow> QueryOptions \<Rightarrow> world \<Rightarrow> (error + ShipSummary list) \<times> world" where
  "fetchVesselsNearMe env lat lon distance options w =
     (case getVesselsInZone env (nearMeQuery env lat lon distance options) w of
        (Inl e, w1) \<Rightarrow> (Inl e, w1)
      | (Inr vessels, w1) \<Rightarrow>
          (case mapVessels env vessels w1 of
             (mapped, w2) \<Rightarrow> (Inr (mapZoneResults env mapped), w2)))"

section \<open>legacy/api.ts\<close>

definition resolvePortIdentifier ::
  "env \<Rightarrow> string option \<Rightarrow> world \<Rightarrow> (error + PortReference option) \<times> world" where
  "resolvePortIdentifier env rawInput w =
     (case rawInput of
        None \<Rightarrow> (Inr None, w)
      | Some raw \<Rightarrow>
          if raw = [] then (Inr None, w)
          else (let trimmed = trim raw in
                if trimmed = [] then (Inr None, w)
                else if list_all isDigit trimmed
                then (Inr (Some \<lparr>portId = Some (Number_digits trimmed), unloco = None,
                                  ref_name = Some trimmed\<rparr>), w)
                else if length trimmed = 5 \<and> list_all isLetter trimmed
                then (Inr (Some \<lparr>portId = None, unloco = Some (toUpperCase trimmed),
                                  ref_name = Some (toUpperCase trimmed)\<rparr>), w)
                else (case searchPorts env trimmed w of
                        (Inl e, w1) \<Rightarrow> (Inl e, w1)
                      | (Inr [], w1) \<Rightarrow> (Inr None, w1)
                      | (Inr (match # _), w1) \<Rightarrow>
                          (Inr (Some \<lparr>portId = Some (ps_port_id match), unloco = Some (ps_unloco match),
                                      ref_name = Some (ps_name match)\<rparr>), w1))))"

text \<open>The \<^verbatim>\<open>statuses.forEach\<close> that fills \<^verbatim>\<open>statusMap\<close>.\<close>

fun fillStatusMap ::
  "env \<Rightarrow> MstZoneVessel list \<Rightarrow> (string \<times> ShipSummary) list \<Rightarrow> world \<Rightarrow> (string \<times> ShipSummary) list \<times> world" where
  "fillStatusMap env [] m w = (m, w)"
| "fillStatusMap env (status # statuses) m w =
     (if truthy_id (zv_mmsi status)
      then (case mapZoneVesselToShip env status w of
              (mapped, w1) \<Rightarrow>
                fillStatusMap env statuses (AList.update (String_id (zv_mmsi status)) mapped m) w1)
      else fillStatusMap env statuses m w)"

definition mergePortVessel ::
  "PortReference \<Rightarrow> (string \<times> ShipSummary) list \<Rightarrow> MstPortVessel \<Rightarrow> ShipSummary option" where
  "mergePortVessel portReference statusMap vessel =
     (if \<not> truthy_id (pv_mmsi vessel) then None
      else (case map_of statusMap (String_id (pv_mmsi vessel)) of
              None \<Rightarrow> None
            | Some base \<Rightarrow>
                Some (base\<lparr>ss_type := (case pv_vessel_type vessel of None \<Rightarrow> ss_type base | Some t \<Rightarrow> t),
                           ss_country := (case pv_flag vessel of None \<Rightarrow> ss_country base | Some f \<Rightarrow> f),
                           ss_destination := ss_destination base,
                           ss_port_current := (case ref_name portReference of
                                                 None \<Rightarrow> ss_port_current base
                                               | Some n \<Rightarrow> n)\<rparr>)))"

text \<open>The asynchronous callback of \<^verbatim>\<open>getVesselsInPort\<close>: what it passes to \<^verbatim>\<open>cb\<close>, or the
  failure that rejects its promise.\<close>

definition getVesselsInPort_then ::
  "env \<Rightarrow> string option \<Rightarrow> world \<Rightarrow> (error + ShipSummary list) \<times> world" where
  "getVesselsInPort_then env shipPort w =
     (case resolvePortIdentifier env shipPort w of
        (Inl e, w1) \<Rightarrow> (Inl e, w1)
      | (Inr None, w1) \<Rightarrow> (Inr [], w1)
      | (Inr (Some portReference), w1) \<Rightarrow>
          (case client_getVesselsInPort env portReference w1 of
             (Inl e, w2) \<Rightarrow> (Inl e, w2)
           | (Inr vesselsInPort, w2) \<Rightarrow>
               (let withMmsi = take (MAX_PORT_VESSELS env)
                                 (filter (\<lambda>vessel. truthy_id (pv_mmsi vessel)) vesselsInPort)
                in if withMmsi = [] then (Inr [], w2)
                   else (case getBulkVesselStatus env
                                \<lparr>bulk_mmsi = Some (map (\<lambda>vessel. String_id (pv_mmsi vessel)) withMmsi),
                                 bulk_imo = None, bulk_response = None, bulk_src = None\<rparr> w2 of
                           (Inl e, w3) \<Rightarrow> (Inl e, w3)
                         | (Inr statuses, w3) \<Rightarrow>
                             (case fillStatusMap env statuses [] w3 of
                                (statusMap, w4) \<Rightarrow>
                                  (Inr (List.map_filter (mergePortVessel portReference statusMap) withMmsi),
                                   w4))))))"

text \<open>\<^verbatim>\<open>getVesselsInPort\<close>: the \<^verbatim>\<open>.catch\<close> turns every failure into \<^verbatim>\<open>cb([])\<close>.\<close>

definition getVesselsInPort :: "env \<Rightarrow> string option \<Rightarrow> world \<Rightarrow> ShipSummary list \<times> world" where
  "getVesselsInPort env shipPort w =
     (case getVesselsInPort_then env shipPort w of
        (Inl e, w1) \<Rightarrow> ([], w1)
      | (Inr merged, w1) \<Rightarrow> (merged, w1))"

section \<open>Concrete inputs\<close>

text \<open>A configuration with the shipped defaults, a clock that starts at 1000 ms, an
  upstream that cannot be reached, the number conversions on integers and a correctly
  rounded cosine; and the state of a process that has just started.\<close>

definition cos64 :: "real \<Rightarrow> real" where
  "cos64 x = fl64 (cos x)"

declare cos64_def [code del]

definition env_default :: env where
  "env_default =
     \<lparr>MST_API_KEY = Some ''key'',
      DEFAULT_MINUTES_BACK = 60,
      MAX_LAT_SPAN = 10,
      MAX_LON_SPAN = 25,
      MAX_RESULTS = 200,
      MAX_PORT_VESSELS = 40,
      Date_now = (\<lambda>k. 1000 + int k),
      fetch = (\<lambda>k path params. NetworkError ''offline''),
      String_number = (\<lambda>r. String_int \<lfloor>r\<rfloor>),
      Number_string = (\<lambda>s. if s \<noteq> [] \<and> list_all isDigit s then Num (real (digits_value s)) else NaN),
      Math_cos = cos64\<rparr>"

definition world0 :: world where
  "world0 = \<lparr>cache = Map.empty, clock_reads = 0, http_log = [], zone_log = []\<rparr>"

text \<open>A zone record without identifier, name or timestamp, and one with them.\<close>

definition anonymous_vessel :: MstZoneVessel where
  "anonymous_vessel =
     \<lparr>zv_vessel_name = [], zv_mmsi = None, zv_imo = None, zv_vtype = None,
      zv_lat = 36, zv_lng = 12, zv_course = None, zv_speed = None,
      zv_nav_status = None, zv_received = []\<rparr>"

definition named_vessel :: MstZoneVessel where
  "named_vessel =
     \<lparr>zv_vessel_name = ''AURORA'', zv_mmsi = Some 2473, zv_imo = None, zv_vtype = Some 7,
      zv_lat = 36, zv_lng = 12, zv_course = None, zv_speed = Some 11,
      zv_nav_status = None, zv_received = ''2025-01-01 10:00''\<rparr>"

text \<open>The state in which \<^verbatim>\<open>request\<close> goes on to the network, when it does.\<close>

definition after_lookup :: "env \<Rightarrow> string \<Rightarrow> int \<Rightarrow> world \<Rightarrow> world" where
  "after_lookup env key cacheMs w =
     (if cacheMs > 0 then snd (readCache env key w) else w)"

text \<open>An upstream that answers every call with the same successful zone listing.\<close>

definition zone_response :: "MstZoneVessel list \<Rightarrow> fetch_result" where
  "zone_response vessels =
     Response \<lparr>ok = True, http_status = 200,
       http_body = Envelope \<lparr>env_status = Some ''success'', env_data = ZoneVessels vessels,
                              env_message = None, env_code = None\<rparr>\<rparr>"

text \<open>A clock that advances by \<open>step\<close> milliseconds between two readings, over an
  upstream that lists one vessel.\<close>

definition env_clock :: "int \<Rightarrow> env" where
  "env_clock step = env_default\<lparr>Date_now := (\<lambda>k. 1000 + step * int k),
     fetch := (\<lambda>k path params. zone_response [named_vessel])\<rparr>"

definition box_params :: "(string \<times> pvalue) list" where
  "box_params = [(''minlat'', PInt 0), (''maxlat'', PInt 5)]"

text \<open>A second vessel, two overlapping boxes, and the summaries of the two vessels.\<close>

definition other_vessel :: MstZoneVessel where
  "other_vessel =
     \<lparr>zv_vessel_name = ''BOREAS'', zv_mmsi = Some 5120, zv_imo = None, zv_vtype = None,
      zv_lat = 4, zv_lng = 4, zv_course = Some 90, zv_speed = None,
      zv_nav_status = None, zv_received = ''2025-01-01 10:05''\<rparr>"

definition box1 :: BoundingBox where
  "box1 = \<lparr>minLat = 0, maxLat = 5, minLon = 0, maxLon = 5\<rparr>"

definition box2 :: BoundingBox where
  "box2 = \<lparr>minLat = 3, maxLat = 8, minLon = 3, maxLon = 8\<rparr>"

definition two_boxes :: string where
  "two_boxes = ''bbox:0|0|5|5, bbox:3|3|8|8''"

definition named_ship :: ShipSummary where
  "named_ship = fst (mapZoneVesselToShip env_default named_vessel world0)"

definition other_ship :: ShipSummary where
  "other_ship = fst (mapZoneVesselToShip env_default other_vessel world0)"

text \<open>An upstream that lists both vessels on every call, under a result cap of two.\<close>

definition env_cap2 :: env where
  "env_cap2 = env_default\<lparr>MAX_RESULTS := 2,
     fetch := (\<lambda>k path params. zone_response [named_vessel, other_vessel])\<rparr>"

text \<open>The same upstream under a result cap of zero.\<close>

definition env_cap0 :: env where
  "env_cap0 = env_cap2\<lparr>MAX_RESULTS := 0\<rparr>"

text \<open>An upstream that lists the first vessel on the first call, and on every later call
  a newer record of it, at another speed, and the second vessel.\<close>

definition env_overlap :: env where
  "env_overlap = env_default\<lparr>
     fetch := (\<lambda>k path params. if k = 0 then zone_response [named_vessel]
                else zone_response [named_vessel\<lparr>zv_speed := Some 3\<rparr>, other_vessel])\<rparr>"




text \<open>An upstream that answers the first zone query with one vessel and every later one
  with an error envelope, and whose other endpoints answer with text that is not JSON.\<close>

definition rate_limited :: fetch_result where
  "rate_limited =
     Response \<lparr>ok = False, http_status = 429,
       http_body = Envelope \<lparr>env_status = Some ''error'', env_data = NoData,
                              env_message = Some ''Rate limit exceeded'', env_code = Some ''ERR_RATE''\<rparr>\<rparr>"

definition not_json :: fetch_result where
  "not_json = Response \<lparr>ok = True, http_status = 200, http_body = Malformed ''Unexpected token <''\<rparr>"

definition env_failing :: env where
  "env_failing = env_default\<lparr>fetch := (\<lambda>k path params.
     if path = ''vessel/zone'' then (if k = 0 then zone_response [named_vessel] else rate_limited)
     else not_json)\<rparr>"

section \<open>Rounding to doubles\<close>

lemma rne_cases:
  "rne m = of_int \<lfloor>m\<rfloor> \<or> rne m = of_int (\<lfloor>m\<rfloor> + 1)"
  by (simp add: rne_def Let_def)

lemma rne_of_int [simp]: "rne (of_int n) = of_int n"
  by (simp add: rne_def)

lemma rne_zero [simp]: "rne 0 = 0"
  by (simp add: rne_def)

lemma rne_lower: "of_int n \<le> m \<Longrightarrow> of_int n \<le> rne m"
proof -
  assume "of_int n \<le> m"
  then have "n \<le> \<lfloor>m\<rfloor>" by (simp add: le_floor_iff)
  then have "(of_int n :: real) \<le> of_int \<lfloor>m\<rfloor>" by simp
  then show ?thesis using rne_cases [of m] by auto
qed

lemma rne_upper: "m \<le> of_int n \<Longrightarrow> rne m \<le> of_int n"
proof -
  assume a: "m \<le> of_int n"
  show ?thesis
  proof (cases "m = of_int n")
    case True
    then show ?thesis by simp
  next
    case False
    with a have "m < of_int n" by simp
    then have "\<lfloor>m\<rfloor> < n" by (simp add: floor_less_iff)
    then have "\<lfloor>m\<rfloor> + 1 \<le> n" by simp
    then have "(of_int (\<lfloor>m\<rfloor> + 1) :: real) \<le> of_int n" "(of_int \<lfloor>m\<rfloor> :: real) \<le> of_int n"
      by simp_all
    then show ?thesis using rne_cases [of m] by auto
  qed
qed

lemma rne_mono: "x \<le> y \<Longrightarrow> rne x \<le> rne y"
proof -
  assume xy: "x \<le> y"
  have fx: "of_int \<lfloor>x\<rfloor> \<le> x" "x < of_int \<lfloor>x\<rfloor> + 1" by linarith+
  show ?thesis
  proof (cases "\<lfloor>x\<rfloor> = \<lfloor>y\<rfloor>")
    case True
    then show ?thesis using xy by (auto simp: rne_def Let_def)
  next
    case False
    have "\<lfloor>x\<rfloor> \<le> \<lfloor>y\<rfloor>" using xy by (rule floor_mono)
    with False have "\<lfloor>x\<rfloor> + 1 \<le> \<lfloor>y\<rfloor>" by simp
    then have "(of_int (\<lfloor>x\<rfloor> + 1) :: real) \<le> of_int \<lfloor>y\<rfloor>" by (simp only: of_int_le_iff)
    moreover have "rne x \<le> of_int (\<lfloor>x\<rfloor> + 1)"
      using rne_cases [of x] by auto
    moreover have "of_int \<lfloor>y\<rfloor> \<le> rne y"
      using rne_cases [of y] by auto
    ultimately show ?thesis by linarith
  qed
qed

lemma doublings_antimono: "x \<le> y \<Longrightarrow> doublings n y \<le> doublings n x"
  by (induction n arbitrary: x y) auto

lemma doublings_le: "doublings n x \<le> n"
  by (induction n arbitrary: x) auto

lemma doublings_upper: "x < 2 ^ 53 \<Longrightarrow> x * 2 ^ doublings n x < 2 ^ 53"
proof (induction n arbitrary: x)
  case 0
  then show ?case by simp
next
  case (Suc n)
  show ?case
  proof (cases "x < 2 ^ 52")
    case True
    then have "2 * x < 2 ^ 53" by simp
    from Suc.IH [OF this] True show ?thesis by (simp add: mult.assoc mult.left_commute)
  next
    case False
    with Suc.prems show ?thesis by simp
  qed
qed

lemma doublings_lower: "doublings n x < n \<Longrightarrow> 2 ^ 52 \<le> x * 2 ^ doublings n x"
proof (induction n arbitrary: x)
  case 0
  then show ?case by simp
next
  case (Suc n)
  show ?case
  proof (cases "x < 2 ^ 52")
    case True
    with Suc.prems have "doublings n (2 * x) < n" by simp
    from Suc.IH [OF this] True show ?thesis by (simp add: mult.assoc mult.left_commute)
  next
    case False
    then show ?thesis by simp
  qed
qed

lemma doublings_eq:
  "0 < x \<Longrightarrow> k \<le> n \<Longrightarrow> 2 ^ 52 \<le> x * 2 ^ k \<Longrightarrow> x * 2 ^ k < 2 ^ 53 \<Longrightarrow> doublings n x = k"
proof (induction n arbitrary: x k)
  case 0
  then show ?case by simp
next
  case (Suc n)
  show ?case
  proof (cases "x < 2 ^ 52")
    case True
    have "k \<noteq> 0"
    proof
      assume "k = 0"
      with Suc.prems(3) True show False by simp
    qed
    then obtain k' where k: "k = Suc k'" by (cases k) auto
    have "doublings n (2 * x) = k'"
      using Suc.prems k by (intro Suc.IH) (simp_all add: mult.assoc mult.left_commute)
    with True k show ?thesis by simp
  next
    case False
    have "k = 0"
    proof (rule ccontr)
      assume "k \<noteq> 0"
      then have "(2::real) \<le> 2 ^ k" by (cases k) (simp_all add: self_le_power)
      then have "x * 2 \<le> x * 2 ^ k" using Suc.prems(1) by simp
      with False Suc.prems(4) show False by simp
    qed
    with False show ?thesis by simp
  qed
qed

lemma halvings_mono: "x \<le> y \<Longrightarrow> halvings n x \<le> halvings n y"
  by (induction n arbitrary: x y) auto

lemma halvings_lower: "2 ^ 52 \<le> x \<Longrightarrow> 2 ^ 52 \<le> x / 2 ^ halvings n x"
proof (induction n arbitrary: x)
  case 0
  then show ?case by simp
next
  case (Suc n)
  show ?case
  proof (cases "2 ^ 53 \<le> x")
    case True
    then have "2 ^ 52 \<le> x / 2" by simp
    from Suc.IH [OF this] True show ?thesis by (simp add: field_simps)
  next
    case False
    with Suc.prems show ?thesis by simp
  qed
qed

lemma halvings_upper: "halvings n x < n \<Longrightarrow> x / 2 ^ halvings n x < 2 ^ 53"
proof (induction n arbitrary: x)
  case 0
  then show ?case by simp
next
  case (Suc n)
  show ?case
  proof (cases "2 ^ 53 \<le> x")
    case True
    with Suc.prems have "halvings n (x / 2) < n" by simp
    from Suc.IH [OF this] True show ?thesis by (simp add: field_simps)
  next
    case False
    then show ?thesis by simp
  qed
qed

lemma halvings_Suc_pos: "2 ^ 53 \<le> x \<Longrightarrow> 0 < halvings (Suc n) x"
  by simp

lemma halvings_pos: "2 ^ 53 \<le> x \<Longrightarrow> 0 < halvings 971 x"
proof -
  assume a: "2 ^ 53 \<le> x"
  have e: "(971::nat) = Suc 970" by simp
  show ?thesis unfolding e using a by (rule halvings_Suc_pos)
qed

lemma fl_pos_nonneg: "0 \<le> x \<Longrightarrow> 0 \<le> fl_pos x"
proof -
  assume a: "0 \<le> x"
  have r: "0 \<le> rne m" if "0 \<le> m" for m
    using rne_lower [of 0 m] that by simp
  show ?thesis
    using a by (simp add: fl_pos_def Let_def r)
qed

lemma fl_pos_small_upper: "0 \<le> x \<Longrightarrow> x < 2 ^ 53 \<Longrightarrow> fl_pos x \<le> 2 ^ 53"
proof -
  assume a: "0 \<le> x" "x < 2 ^ 53"
  let ?k = "doublings 1074 x"
  have "x * 2 ^ ?k \<le> of_int (2 ^ 53)"
    using doublings_upper [OF a(2), of 1074] by simp
  then have "rne (x * 2 ^ ?k) \<le> of_int (2 ^ 53)" by (rule rne_upper)
  then have "rne (x * 2 ^ ?k) / 2 ^ ?k \<le> 2 ^ 53 / 2 ^ ?k"
    by (simp add: divide_right_mono)
  also have "\<dots> \<le> 2 ^ 53 / 1"
    by (intro divide_left_mono) simp_all
  finally show ?thesis using a(2) by (simp add: fl_pos_def Let_def)
qed

lemma fl_pos_large_lower: "2 ^ 53 \<le> x \<Longrightarrow> 2 ^ 53 \<le> fl_pos x"
proof -
  assume a: "2 ^ 53 \<le> x"
  let ?j = "halvings 971 x"
  have "(2::real) ^ 52 \<le> x" using a by simp
  then have "of_int (2 ^ 52) \<le> x / 2 ^ ?j"
    using halvings_lower [of x 971] by simp
  then have r: "of_int (2 ^ 52) \<le> rne (x / 2 ^ ?j)" by (rule rne_lower)
  have "0 < ?j" using a by (rule halvings_pos)
  then have "(2::real) ^ 1 \<le> 2 ^ ?j" by (intro power_increasing) simp_all
  then have "(2::real) ^ 52 * 2 \<le> rne (x / 2 ^ ?j) * 2 ^ ?j"
    using r by (intro mult_mono) simp_all
  then show ?thesis using a by (simp add: fl_pos_def Let_def)
qed

lemma fl_pos_mono: "0 \<le> x \<Longrightarrow> x \<le> y \<Longrightarrow> fl_pos x \<le> fl_pos y"
proof -
  assume x0: "0 \<le> x" and xy: "x \<le> y"
  show ?thesis
  proof (cases "y < 2 ^ 53")
    case True
    then have xs: "x < 2 ^ 53" using xy by simp
    let ?kx = "doublings 1074 x" and ?ky = "doublings 1074 y"
    have k: "?ky \<le> ?kx" using xy by (rule doublings_antimono)
    show ?thesis
    proof (cases "?ky = ?kx")
      case True
      have "rne (x * 2 ^ ?kx) \<le> rne (y * 2 ^ ?kx)"
        using xy by (intro rne_mono) simp
      then have "rne (x * 2 ^ ?kx) / 2 ^ ?kx \<le> rne (y * 2 ^ ?kx) / 2 ^ ?kx"
        by (simp add: divide_right_mono)
      then show ?thesis using xs \<open>y < 2 ^ 53\<close> True by (simp add: fl_pos_def Let_def)
    next
      case False
      with k have lt: "Suc ?ky \<le> ?kx" by simp
      have "?ky < 1074" using lt doublings_le [of 1074 x] by simp
      then have "of_int (2 ^ 52) \<le> y * 2 ^ ?ky"
        using doublings_lower [of 1074 y] by simp
      then have "of_int (2 ^ 52) \<le> rne (y * 2 ^ ?ky)" by (rule rne_lower)
      then have ylow: "2 ^ 52 / 2 ^ ?ky \<le> rne (y * 2 ^ ?ky) / 2 ^ ?ky"
        by (simp add: divide_right_mono)
      have "x * 2 ^ ?kx \<le> of_int (2 ^ 53)"
        using doublings_upper [OF xs, of 1074] by simp
      then have "rne (x * 2 ^ ?kx) \<le> of_int (2 ^ 53)" by (rule rne_upper)
      then have "rne (x * 2 ^ ?kx) / 2 ^ ?kx \<le> 2 ^ 53 / 2 ^ ?kx"
        by (simp add: divide_right_mono)
      also have "\<dots> \<le> 2 ^ 53 / 2 ^ Suc ?ky"
        using lt by (intro divide_left_mono power_increasing) simp_all
      also have "\<dots> = 2 ^ 52 / 2 ^ ?ky" by simp
      finally have "rne (x * 2 ^ ?kx) / 2 ^ ?kx \<le> rne (y * 2 ^ ?ky) / 2 ^ ?ky"
        using ylow by simp
      then show ?thesis using xs \<open>y < 2 ^ 53\<close> by (simp add: fl_pos_def Let_def)
    qed
  next
    case False
    then have yl: "2 ^ 53 \<le> y" by simp
    show ?thesis
    proof (cases "x < 2 ^ 53")
      case True
      from fl_pos_small_upper [OF x0 True] fl_pos_large_lower [OF yl] show ?thesis by simp
    next
      case False
      then have xl: "2 ^ 53 \<le> x" by simp
      let ?jx = "halvings 971 x" and ?jy = "halvings 971 y"
      have j: "?jx \<le> ?jy" using xy by (rule halvings_mono)
      show ?thesis
      proof (cases "?jx = ?jy")
        case True
        have "rne (x / 2 ^ ?jy) \<le> rne (y / 2 ^ ?jy)"
          using xy by (intro rne_mono) (simp add: divide_right_mono)
        then have "rne (x / 2 ^ ?jy) * 2 ^ ?jy \<le> rne (y / 2 ^ ?jy) * 2 ^ ?jy"
          by simp
        then show ?thesis using xl yl True by (simp add: fl_pos_def Let_def)
      next
        case False
        with j have lt: "Suc ?jx \<le> ?jy" by simp
        have "?jy \<le> 971"
        proof -
          have "halvings n z \<le> n" for n z by (induction n arbitrary: z) auto
          then show ?thesis .
        qed
        with lt have "?jx < 971" by simp
        then have "x / 2 ^ ?jx \<le> of_int (2 ^ 53)"
          using halvings_upper [of 971 x] by simp
        then have "rne (x / 2 ^ ?jx) \<le> of_int (2 ^ 53)" by (rule rne_upper)
        then have "rne (x / 2 ^ ?jx) * 2 ^ ?jx \<le> 2 ^ 53 * 2 ^ ?jx"
          by simp
        also have "\<dots> = 2 ^ 52 * 2 ^ Suc ?jx" by simp
        also have "\<dots> \<le> 2 ^ 52 * 2 ^ ?jy"
          using lt by (intro mult_left_mono power_increasing) simp_all
        finally have xup: "rne (x / 2 ^ ?jx) * 2 ^ ?jx \<le> 2 ^ 52 * 2 ^ ?jy" .
        have "(2::real) ^ 52 \<le> y" using yl by simp
        then have "of_int (2 ^ 52) \<le> y / 2 ^ ?jy"
          using halvings_lower [of y 971] by simp
        then have "of_int (2 ^ 52) \<le> rne (y / 2 ^ ?jy)" by (rule rne_lower)
        then have "2 ^ 52 * 2 ^ ?jy \<le> rne (y / 2 ^ ?jy) * 2 ^ ?jy"
          by (intro mult_right_mono) simp_all
        with xup have "rne (x / 2 ^ ?jx) * 2 ^ ?jx \<le> rne (y / 2 ^ ?jy) * 2 ^ ?jy"
          by (rule order_trans)
        then show ?thesis using xl yl by (simp add: fl_pos_def Let_def)
      qed
    qed
  qed
qed

lemma fl64_mono: "x \<le> y \<Longrightarrow> fl64 x \<le> fl64 y"
proof -
  assume xy: "x \<le> y"
  consider "0 \<le> x" | "x < 0" "0 \<le> y" | "y < 0" using xy by linarith
  then show ?thesis
  proof cases
    case 1
    then show ?thesis using xy fl_pos_mono [of x y] by (simp add: fl64_def)
  next
    case 2
    then show ?thesis
      using fl_pos_nonneg [of "- x"] fl_pos_nonneg [of y] by (simp add: fl64_def)
  next
    case 3
    then show ?thesis using xy fl_pos_mono [of "- y" "- x"] by (simp add: fl64_def)
  qed
qed

lemma fl64_zero: "fl64 0 = 0"
  by (simp add: fl64_def fl_pos_def)

lemma fl64_eval:
  "0 < x \<Longrightarrow> k \<le> 1074 \<Longrightarrow> 2 ^ 52 \<le> x * 2 ^ k \<Longrightarrow> x * 2 ^ k < 2 ^ 53 \<Longrightarrow>
   fl64 x = rne (x * 2 ^ k) / 2 ^ k"
proof -
  assume a: "0 < x" "k \<le> 1074" "2 ^ 52 \<le> x * 2 ^ k" "x * 2 ^ k < 2 ^ 53"
  have d: "doublings 1074 x = k" using a by (rule doublings_eq)
  have "(1::real) \<le> 2 ^ k" by simp
  then have "x * 1 \<le> x * 2 ^ k" using a(1) by (intro mult_left_mono) simp_all
  then have "x < 2 ^ 53" using a(4) by simp
  then show ?thesis using a(1) d by (simp add: fl64_def fl_pos_def)
qed

lemma fl64_minus: "fl64 (- x) = - fl64 x"
  by (simp add: fl64_def fl_pos_def)




lemma fl64_1: "fl64 1 = 1"
  by (subst fl64_eval [of _ 52]) (simp_all add: rne_def Let_def)

lemma fl64_60: "fl64 60 = 60"
  by (subst fl64_eval [of _ 47]) (simp_all add: rne_def Let_def)

lemma fl64_six: "fl64 (60 * one_tenth) = 6"
  unfolding one_tenth_def
  by (subst fl64_eval [of _ 50]) (simp_all add: rne_def Let_def)




lemma fl64_5_6: "fl64 (5 / 6) = 7505999378950827 / 9007199254740992"
  by (subst fl64_eval [of _ 53]) (simp_all add: rne_def Let_def)

lemma fl64_5_6_again: "fl64 (7505999378950827 / 9007199254740992) = 7505999378950827 / 9007199254740992"
  by (subst fl64_eval [of _ 53]) (simp_all add: rne_def Let_def)

lemma fl64_1_60: "fl64 (1 / 60) = 4803839602528529 / 288230376151711744"
  by (subst fl64_eval [of _ 58]) (simp_all add: rne_def Let_def)

lemma fl64_1_60_again: "fl64 (4803839602528529 / 288230376151711744) = 4803839602528529 / 288230376151711744"
  by (subst fl64_eval [of _ 58]) (simp_all add: rne_def Let_def)






lemma fl64_below_one: "fl64 (9007199254740991 / 9007199254740992 / 60) = 4803839602528529 / 288230376151711744"
  by (subst fl64_eval [of _ 58]) (simp_all add: rne_def Let_def)

section \<open>The logs and the cache over the planner\<close>

lemma Math_round_nearest: "\<bar>Math_round v - v\<bar> \<le> 1 / 2"
  unfolding Math_round_def by linarith

lemma env_default_fields:
  "MST_API_KEY env_default = Some ''key''"
  "DEFAULT_MINUTES_BACK env_default = 60"
  "MAX_LAT_SPAN env_default = 10"
  "MAX_LON_SPAN env_default = 25"
  "MAX_RESULTS env_default = 200"
  "MAX_PORT_VESSELS env_default = 40"
  "Date_now env_default k = 1000 + int k"
  "fetch env_default k path params = NetworkError ''offline''"
  "String_number env_default r = String_int \<lfloor>r\<rfloor>"
  "Number_string env_default s = (if s \<noteq> [] \<and> list_all isDigit s then Num (real (digits_value s)) else NaN)"
  "Math_cos env_default x = fl64 (cos x)"
  by (simp_all add: env_default_def cos64_def)


text \<open>What the pure parts of the planner leave alone: the cache and the log.\<close>

lemma now_keeps: "now env w = (t, w1) \<Longrightarrow> http_log w1 = http_log w \<and> cache w1 = cache w"
  by (auto simp: now_def)

lemma buildShipId_keeps:
  "buildShipId env mmsi imo nm ts w = (i, w1) \<Longrightarrow> http_log w1 = http_log w \<and> cache w1 = cache w"
  by (auto simp: buildShipId_def now_def Let_def split: if_splits)

lemma mapZoneVesselToShip_keeps:
  "mapZoneVesselToShip env vessel w = (s, w1) \<Longrightarrow> http_log w1 = http_log w \<and> cache w1 = cache w"
  by (auto simp: mapZoneVesselToShip_def Let_def split: prod.splits dest: buildShipId_keeps)


lemma forEachVessel_keeps:
  "forEachVessel env vessels d w = (d1, w1) \<Longrightarrow> http_log w1 = http_log w \<and> cache w1 = cache w"
proof (induction vessels arbitrary: d w)
  case Nil
  then show ?case by simp
next
  case (Cons v vs)
  then show ?case
    by (fastforce split: prod.splits dest: mapZoneVesselToShip_keeps)
qed

lemma readCache_log: "readCache env key w = (r, w1) \<Longrightarrow> http_log w1 = http_log w"
  by (auto simp: readCache_def now_def Let_def split: option.splits if_splits)

lemma writeCache_log: "http_log (writeCache env key p ttl w) = http_log w"
  by (simp add: writeCache_def now_def Let_def)


lemma typed_snd: "snd (typed cast r) = snd r"
  by (auto simp: typed_def split: prod.splits sum.splits)


text \<open>The record of zone queries grows only in \<^verbatim>\<open>getVesselsInZone\<close>, by the query it
  is given.\<close>

lemma now_zone: "now env w = (t, w1) \<Longrightarrow> zone_log w1 = zone_log w"
  by (auto simp: now_def)

lemma buildShipId_zone:
  "buildShipId env mmsi imo nm ts w = (i, w1) \<Longrightarrow> zone_log w1 = zone_log w"
  by (auto simp: buildShipId_def now_def Let_def split: if_splits)

lemma mapZoneVesselToShip_zone:
  "mapZoneVesselToShip env vessel w = (s, w1) \<Longrightarrow> zone_log w1 = zone_log w"
  by (auto simp: mapZoneVesselToShip_def Let_def split: prod.splits dest: buildShipId_zone)

lemma mapVessels_zone:
  "mapVessels env vessels w = (ss, w1) \<Longrightarrow> zone_log w1 = zone_log w"
proof (induction vessels arbitrary: w ss w1)
  case Nil
  then show ?case by simp
next
  case (Cons v vs)
  then show ?case
    by (fastforce split: prod.splits dest: mapZoneVesselToShip_zone)
qed

lemma forEachVessel_zone:
  "forEachVessel env vessels d w = (d1, w1) \<Longrightarrow> zone_log w1 = zone_log w"
proof (induction vessels arbitrary: d w)
  case Nil
  then show ?case by simp
next
  case (Cons v vs)
  then show ?case
    by (fastforce split: prod.splits dest: mapZoneVesselToShip_zone)
qed

lemma readCache_zone: "readCache env key w = (r, w1) \<Longrightarrow> zone_log w1 = zone_log w"
  by (auto simp: readCache_def now_def Let_def split: option.splits if_splits)

lemma writeCache_zone: "zone_log (writeCache env key p ttl w) = zone_log w"
  by (simp add: writeCache_def now_def Let_def)

lemma request_zone: "zone_log (snd (request env path params cacheMs w)) = zone_log w"
  by (auto simp: request_def Let_def writeCache_zone split: prod.splits option.splits sum.splits
      fetch_result.splits body.splits if_splits dest: readCache_zone)

lemma getVesselsInZone_zone:
  "zone_log (snd (getVesselsInZone env query w)) = zone_log w @ [query]"
  unfolding getVesselsInZone_def typed_snd
  using request_zone [of env "''vessel/zone''" "Some (zoneParams query)" 300000 "w\<lparr>zone_log := zone_log w @ [query]\<rparr>"]
  by simp

lemma fetchVesselsNearMe_zone:
  "zone_log (snd (fetchVesselsNearMe env lat lon distance options w))
     = zone_log w @ [nearMeQuery env lat lon distance options]"
proof -
  let ?q = "nearMeQuery env lat lon distance options"
  obtain r w1 where z: "getVesselsInZone env ?q w = (r, w1)"
    by (cases "getVesselsInZone env ?q w")
  have l: "zone_log w1 = zone_log w @ [?q]"
    using getVesselsInZone_zone [of env ?q w] z by simp
  show ?thesis
  proof (cases r)
    case (Inl e)
    with z l show ?thesis by (simp add: fetchVesselsNearMe_def)
  next
    case (Inr vessels)
    obtain mapped w2 where m: "mapVessels env vessels w1 = (mapped, w2)"
      by (cases "mapVessels env vessels w1")
    from mapVessels_zone [OF m] z Inr m l show ?thesis
      by (simp add: fetchVesselsNearMe_def)
  qed
qed


section \<open>The minutesBack window\<close>

lemma Math_round_int: "Math_round v \<in> \<int>"
  by (simp add: Math_round_def)

lemma clamp_60_720_int: "x \<in> \<int> \<Longrightarrow> clampNumber x 60 720 \<in> \<int>"
  by (auto simp: clampNumber_def min_def max_def)

lemma clamp_60_720_bounds: "60 \<le> clampNumber x 60 720 \<and> clampNumber x 60 720 \<le> 720"
  by (simp add: clampNumber_def)

lemma zoneParams_minutesBack:
  "m \<noteq> 0 \<Longrightarrow>
   map_of (sanitizeParams env (Some (zoneParams (q\<lparr>minutesBack := Some m\<rparr>)))) ''minutesBack''
     = Some (String_number env m)"
  by (simp add: sanitizeParams_def zoneParams_def)

text \<open>
  C5 (as amended). A caller-supplied value other than zero is rounded to the nearest
  integer and clamped into [60, 720], and that is the value the area and near-me
  queries carry and send; an absent value, \<open>NaN\<close> and zero give the configured default
  as it is.
\<close>

theorem formatMinutesBack_rounds_and_clamps:
  "formatMinutesBack env None = DEFAULT_MINUTES_BACK env
   \<and> formatMinutesBack env (Some NaN) = DEFAULT_MINUTES_BACK env
   \<and> formatMinutesBack env (Some (Num 0)) = DEFAULT_MINUTES_BACK env
   \<and> (v \<noteq> 0 \<longrightarrow>
        formatMinutesBack env (Some (Num v)) = clampNumber (Math_round v) 60 720
        \<and> Math_round v \<in> \<int> \<and> \<bar>Math_round v - v\<bar> \<le> 1 / 2
        \<and> formatMinutesBack env (Some (Num v)) \<in> \<int>
        \<and> 60 \<le> formatMinutesBack env (Some (Num v))
        \<and> formatMinutesBack env (Some (Num v)) \<le> 720
        \<and> minutesBack (areaQuery box (formatMinutesBack env (Some (Num v))))
             = Some (clampNumber (Math_round v) 60 720)
        \<and> minutesBack (nearMeQuery env lat lon distance \<lparr>opt_minutesBack = Some (Num v)\<rparr>)
             = Some (clampNumber (Math_round v) 60 720)
        \<and> map_of (sanitizeParams env (Some (zoneParams
              (areaQuery box (formatMinutesBack env (Some (Num v))))))) ''minutesBack''
             = Some (String_number env (clampNumber (Math_round v) 60 720))
        \<and> map_of (sanitizeParams env (Some (zoneParams
              (nearMeQuery env lat lon distance \<lparr>opt_minutesBack = Some (Num v)\<rparr>)))) ''minutesBack''
             = Some (String_number env (clampNumber (Math_round v) 60 720)))"
proof -
  let ?c = "clampNumber (Math_round v) 60 720"
  have d: "formatMinutesBack env None = DEFAULT_MINUTES_BACK env
     \<and> formatMinutesBack env (Some NaN) = DEFAULT_MINUTES_BACK env
     \<and> formatMinutesBack env (Some (Num 0)) = DEFAULT_MINUTES_BACK env"
    by (simp add: formatMinutesBack_def)
  have f: "v \<noteq> 0 \<Longrightarrow> formatMinutesBack env (Some (Num v)) = ?c"
    by (simp add: formatMinutesBack_def)
  have nz: "?c \<noteq> 0"
    using clamp_60_720_bounds [of "Math_round v"] by linarith
  have a: "areaQuery box ?c = (areaQuery box ?c)\<lparr>minutesBack := Some ?c\<rparr>"
    by (simp add: areaQuery_def)
  have n: "v \<noteq> 0 \<Longrightarrow> nearMeQuery env lat lon distance \<lparr>opt_minutesBack = Some (Num v)\<rparr>
     = (nearMeQuery env lat lon distance \<lparr>opt_minutesBack = Some (Num v)\<rparr>)\<lparr>minutesBack := Some ?c\<rparr>"
    by (simp add: nearMeQuery_def Let_def f)
  have sa: "map_of (sanitizeParams env (Some (zoneParams (areaQuery box ?c)))) ''minutesBack''
      = Some (String_number env ?c)"
    using zoneParams_minutesBack [OF nz, of env "areaQuery box ?c"] a by simp
  have sn: "v \<noteq> 0 \<Longrightarrow> map_of (sanitizeParams env (Some (zoneParams
      (nearMeQuery env lat lon distance \<lparr>opt_minutesBack = Some (Num v)\<rparr>)))) ''minutesBack''
      = Some (String_number env ?c)"
    using zoneParams_minutesBack [OF nz, of env "nearMeQuery env lat lon distance \<lparr>opt_minutesBack = Some (Num v)\<rparr>"] n
    by simp
  have qa: "minutesBack (areaQuery box ?c) = Some ?c"
    by (simp add: areaQuery_def)
  have qn: "v \<noteq> 0 \<Longrightarrow> minutesBack (nearMeQuery env lat lon distance \<lparr>opt_minutesBack = Some (Num v)\<rparr>) = Some ?c"
    by (simp add: nearMeQuery_def Let_def f)
  show ?thesis
    using d f sa sn qa qn Math_round_int [of v] Math_round_nearest [of v]
      clamp_60_720_int [OF Math_round_int, of v] clamp_60_720_bounds [of "Math_round v"]
    by simp
qed

theorem formatMinutesBack_rounds_and_clamps_witness:
  "formatMinutesBack env_default (Some (Num 45)) = 60
   \<and> formatMinutesBack env_default (Some (Num (2001 / 10))) = 200
   \<and> formatMinutesBack env_default (Some (Num 5000)) = 720
   \<and> minutesBack (areaQuery WMED (formatMinutesBack env_default (Some (Num 45)))) = Some 60
   \<and> formatMinutesBack env_default None = 60"
proof -
  have r1: "Math_round 45 = 45" by (simp add: Math_round_def)
  have r2: "Math_round (2001 / 10) = 200"
  proof -
    have "\<lfloor>(2001 / 10 + 1 / 2 :: real)\<rfloor> = 200" by linarith
    then show ?thesis by (simp add: Math_round_def)
  qed
  have r3: "Math_round 5000 = 5000" by (simp add: Math_round_def)
  show ?thesis
    using formatMinutesBack_rounds_and_clamps [of env_default 45 WMED 0 0 5]
      formatMinutesBack_rounds_and_clamps [of env_default "2001 / 10" WMED 0 0 5]
      formatMinutesBack_rounds_and_clamps [of env_default 5000 WMED 0 0 5]
    by (simp add: r1 r2 r3 clampNumber_def env_default_fields areaQuery_def)
qed

text \<open>As the claim states it, for every caller-supplied value, it fails at zero: with a
  configured default of 120 the value is 120, not 0 rounded and clamped, which is 60.\<close>

theorem formatMinutesBack_zero_counterexample:
  "formatMinutesBack (env_default\<lparr>DEFAULT_MINUTES_BACK := 120\<rparr>) (Some (Num 0)) = 120
   \<and> clampNumber (Math_round 0) 60 720 = 60
   \<and> formatMinutesBack (env_default\<lparr>DEFAULT_MINUTES_BACK := 120\<rparr>) (Some (Num 0))
       \<noteq> clampNumber (Math_round 0) 60 720"
  by (simp add: formatMinutesBack_def clampNumber_def Math_round_def env_default_def)

section \<open>The ship normalizer\<close>

lemma buildShipId_identified:
  "truthy_id mmsi \<or> truthy_id imo \<or> nm \<noteq> [] \<or> ts \<noteq> [] \<Longrightarrow>
   buildShipId env mmsi imo nm ts w = (fst (buildShipId env' mmsi imo nm ts w'), w)"
  by (auto simp: buildShipId_def Let_def)

lemma buildShipId_anonymous:
  "\<not> truthy_id mmsi \<Longrightarrow> \<not> truthy_id imo \<Longrightarrow>
   buildShipId env mmsi imo [] [] w =
     (''ship-'' @ String_int (Date_now env (clock_reads w)), w\<lparr>clock_reads := Suc (clock_reads w)\<rparr>)"
  by (simp add: buildShipId_def now_def)

lemma String_nat_nonempty: "String_nat k \<noteq> []"
  by (subst String_nat.simps) simp

lemma String_int_nonempty: "String_int j \<noteq> []"
  by (simp add: String_int_def String_nat_nonempty)

lemma buildShipId_nonempty: "fst (buildShipId env mmsi imo nm ts w) \<noteq> []"
proof (cases "truthy_id mmsi")
  case True
  then show ?thesis
    by (cases mmsi) (simp_all add: buildShipId_def String_int_nonempty)
next
  case False
  note m = this
  show ?thesis
  proof (cases "truthy_id imo")
    case True
    then show ?thesis using m
      by (cases imo) (simp_all add: buildShipId_def String_int_nonempty)
  next
    case False
    then show ?thesis using m
      by (simp add: buildShipId_def Let_def now_def)
  qed
qed

lemma mapZone_fst:
  "fst (mapZoneVesselToShip env vessel w) =
     (fst (mapZoneVesselToShip env vessel w))\<lparr>ss_id :=
        fst (buildShipId env (zv_mmsi vessel) (zv_imo vessel) (zv_vessel_name vessel) (zv_received vessel) w)\<rparr>"
  by (simp add: mapZoneVesselToShip_def split_beta)

lemma mapZone_id:
  "ss_id (fst (mapZoneVesselToShip env vessel w)) =
     fst (buildShipId env (zv_mmsi vessel) (zv_imo vessel) (zv_vessel_name vessel) (zv_received vessel) w)"
  by (simp add: mapZoneVesselToShip_def split_beta)

lemma mapZone_snd:
  "snd (mapZoneVesselToShip env vessel w) =
     snd (buildShipId env (zv_mmsi vessel) (zv_imo vessel) (zv_vessel_name vessel) (zv_received vessel) w)"
  by (simp add: mapZoneVesselToShip_def split_beta)

lemma mapZone_rest:
  "(fst (mapZoneVesselToShip env vessel w))\<lparr>ss_id := []\<rparr>
     = (fst (mapZoneVesselToShip env' vessel w'))\<lparr>ss_id := []\<rparr>"
  by (simp add: mapZoneVesselToShip_def split_beta)

lemma mapPort_id:
  "ss_id (fst (mapPortVesselToShip env vessel w)) =
     fst (buildShipId env (pv_mmsi vessel) (pv_imo vessel) (pv_name vessel)
            (case pv_arrived vessel of None \<Rightarrow> [] | Some a \<Rightarrow> a) w)"
  by (simp add: mapPortVesselToShip_def Let_def split_beta)

lemma mapPort_snd:
  "snd (mapPortVesselToShip env vessel w) =
     snd (buildShipId env (pv_mmsi vessel) (pv_imo vessel) (pv_name vessel)
            (case pv_arrived vessel of None \<Rightarrow> [] | Some a \<Rightarrow> a) w)"
  by (simp add: mapPortVesselToShip_def Let_def split_beta)

lemma mapPort_rest:
  "(fst (mapPortVesselToShip env vessel w))\<lparr>ss_id := []\<rparr>
     = (fst (mapPortVesselToShip env' vessel w'))\<lparr>ss_id := []\<rparr>"
  by (simp add: mapPortVesselToShip_def Let_def split_beta)

lemma ship_eqI:
  fixes r r' :: ShipSummary
  assumes "r\<lparr>ss_id := []\<rparr> = r'\<lparr>ss_id := []\<rparr>" and "ss_id r = ss_id r'"
  shows "r = r'"
proof -
  have "r = (r\<lparr>ss_id := []\<rparr>)\<lparr>ss_id := ss_id r\<rparr>" by simp
  also have "\<dots> = (r'\<lparr>ss_id := []\<rparr>)\<lparr>ss_id := ss_id r'\<rparr>" using assms by simp
  also have "\<dots> = r'" by simp
  finally show ?thesis .
qed

lemma mapZone_identified:
  assumes "truthy_id (zv_mmsi vessel) \<or> truthy_id (zv_imo vessel)
      \<or> zv_vessel_name vessel \<noteq> [] \<or> zv_received vessel \<noteq> []"
  shows "mapZoneVesselToShip env vessel w = (fst (mapZoneVesselToShip env' vessel w'), w)"
proof -
  let ?b = "\<lambda>e x. buildShipId e (zv_mmsi vessel) (zv_imo vessel) (zv_vessel_name vessel) (zv_received vessel) x"
  have b: "?b env w = (fst (?b env' w'), w)"
    using assms by (rule buildShipId_identified)
  have i: "ss_id (fst (mapZoneVesselToShip env vessel w)) = ss_id (fst (mapZoneVesselToShip env' vessel w'))"
    by (simp add: mapZone_id b)
  have f: "fst (mapZoneVesselToShip env vessel w) = fst (mapZoneVesselToShip env' vessel w')"
    using mapZone_rest i by (rule ship_eqI)
  have s: "snd (mapZoneVesselToShip env vessel w) = w"
    by (simp add: mapZone_snd b)
  show ?thesis using f s by (simp add: prod_eq_iff)
qed

lemma mapPort_identified:
  assumes "truthy_id (pv_mmsi vessel) \<or> truthy_id (pv_imo vessel)
      \<or> pv_name vessel \<noteq> [] \<or> (\<exists>a. pv_arrived vessel = Some a \<and> a \<noteq> [])"
  shows "mapPortVesselToShip env vessel w = (fst (mapPortVesselToShip env' vessel w'), w)"
proof -
  let ?ts = "case pv_arrived vessel of None \<Rightarrow> [] | Some a \<Rightarrow> a"
  let ?b = "\<lambda>e x. buildShipId e (pv_mmsi vessel) (pv_imo vessel) (pv_name vessel) ?ts x"
  have c: "truthy_id (pv_mmsi vessel) \<or> truthy_id (pv_imo vessel) \<or> pv_name vessel \<noteq> [] \<or> ?ts \<noteq> []"
    using assms by auto
  have b: "?b env w = (fst (?b env' w'), w)"
    using c by (rule buildShipId_identified)
  have i: "ss_id (fst (mapPortVesselToShip env vessel w)) = ss_id (fst (mapPortVesselToShip env' vessel w'))"
    by (simp add: mapPort_id b)
  have f: "fst (mapPortVesselToShip env vessel w) = fst (mapPortVesselToShip env' vessel w')"
    using mapPort_rest i by (rule ship_eqI)
  have s: "snd (mapPortVesselToShip env vessel w) = w"
    by (simp add: mapPort_snd b)
  show ?thesis using f s by (simp add: prod_eq_iff)
qed

lemma mapZone_anonymous:
  assumes "\<not> truthy_id (zv_mmsi vessel) \<and> \<not> truthy_id (zv_imo vessel)
      \<and> zv_vessel_name vessel = [] \<and> zv_received vessel = []"
  shows "ss_id (fst (mapZoneVesselToShip env vessel w)) = ''ship-'' @ String_int (Date_now env (clock_reads w))
      \<and> clock_reads (snd (mapZoneVesselToShip env vessel w)) = Suc (clock_reads w)"
  using assms by (simp add: mapZone_id mapZone_snd buildShipId_anonymous)

text \<open>
  C9 (as amended). The normalizer is total. A record that identifies itself (a non-zero
  MMSI or IMO, or a name or timestamp that is not empty) is mapped without reading the
  clock: the summary is the same under every clock and in every state, and the state is
  left as it was. For a zone record with none of these the id is \<open>ship-\<close> followed
  by the clock reading taken at that moment, and one reading is consumed. The id is
  never empty, every field but the id is independent of the clock, and neither the cache
  nor the upstream log is touched.
\<close>

theorem ship_normalizer_deterministic_when_identified:
  "(truthy_id (zv_mmsi vessel) \<or> truthy_id (zv_imo vessel)
      \<or> zv_vessel_name vessel \<noteq> [] \<or> zv_received vessel \<noteq> [] \<longrightarrow>
      mapZoneVesselToShip env vessel w = (fst (mapZoneVesselToShip env' vessel w'), w))
   \<and> (truthy_id (pv_mmsi pvessel) \<or> truthy_id (pv_imo pvessel)
      \<or> pv_name pvessel \<noteq> [] \<or> (\<exists>a. pv_arrived pvessel = Some a \<and> a \<noteq> []) \<longrightarrow>
      mapPortVesselToShip env pvessel w = (fst (mapPortVesselToShip env' pvessel w'), w))
   \<and> (\<not> truthy_id (zv_mmsi vessel) \<and> \<not> truthy_id (zv_imo vessel)
      \<and> zv_vessel_name vessel = [] \<and> zv_received vessel = [] \<longrightarrow>
      ss_id (fst (mapZoneVesselToShip env vessel w)) = ''ship-'' @ String_int (Date_now env (clock_reads w))
      \<and> clock_reads (snd (mapZoneVesselToShip env vessel w)) = Suc (clock_reads w))
   \<and> ss_id (fst (mapZoneVesselToShip env vessel w)) \<noteq> []
   \<and> ss_id (fst (mapPortVesselToShip env pvessel w)) \<noteq> []
   \<and> (fst (mapZoneVesselToShip env vessel w))\<lparr>ss_id := []\<rparr>
        = (fst (mapZoneVesselToShip env' vessel w'))\<lparr>ss_id := []\<rparr>
   \<and> http_log (snd (mapZoneVesselToShip env vessel w)) = http_log w
   \<and> cache (snd (mapZoneVesselToShip env vessel w)) = cache w"
proof (intro conjI impI)
  show "ss_id (fst (mapZoneVesselToShip env vessel w)) \<noteq> []"
    by (simp add: mapZone_id buildShipId_nonempty)
  show "ss_id (fst (mapPortVesselToShip env pvessel w)) \<noteq> []"
    by (simp add: mapPort_id buildShipId_nonempty)
  show "(fst (mapZoneVesselToShip env vessel w))\<lparr>ss_id := []\<rparr>
        = (fst (mapZoneVesselToShip env' vessel w'))\<lparr>ss_id := []\<rparr>"
    by (rule mapZone_rest)
  show "http_log (snd (mapZoneVesselToShip env vessel w)) = http_log w"
    using mapZoneVesselToShip_keeps [of env vessel w] by (cases "mapZoneVesselToShip env vessel w") simp
  show "cache (snd (mapZoneVesselToShip env vessel w)) = cache w"
    using mapZoneVesselToShip_keeps [of env vessel w] by (cases "mapZoneVesselToShip env vessel w") simp
qed (simp_all add: mapZone_identified mapPort_identified mapZone_anonymous)

lemma String_int_1000: "String_int 1000 = ''1000''"
  by (simp add: String_int_def String_nat.simps digit_char_def)

lemma String_int_1001: "String_int 1001 = ''1001''"
  by (simp add: String_int_def String_nat.simps digit_char_def)

text \<open>Two applications to the same record, one after the other, with no identifier, name
  or timestamp: the ids are \<open>ship-1000\<close> and \<open>ship-1001\<close>.\<close>

theorem ship_normalizer_clock_counterexample:
  "ss_id (fst (mapZoneVesselToShip env_default anonymous_vessel world0)) = ''ship-1000''
   \<and> ss_id (fst (mapZoneVesselToShip env_default anonymous_vessel
        (snd (mapZoneVesselToShip env_default anonymous_vessel world0)))) = ''ship-1001''
   \<and> fst (mapZoneVesselToShip env_default anonymous_vessel world0)
       \<noteq> fst (mapZoneVesselToShip env_default anonymous_vessel
            (snd (mapZoneVesselToShip env_default anonymous_vessel world0)))"
  by (simp add: mapZoneVesselToShip_def buildShipId_def now_def Let_def anonymous_vessel_def world0_def
      env_default_fields String_int_1000 String_int_1001)

theorem ship_normalizer_deterministic_when_identified_witness:
  "mapZoneVesselToShip env_default named_vessel world0
     = (fst (mapZoneVesselToShip (env_default\<lparr>Date_now := (\<lambda>k. 5)\<rparr>) named_vessel (world0\<lparr>clock_reads := 9\<rparr>)), world0)
   \<and> ss_id (fst (mapZoneVesselToShip env_default anonymous_vessel world0)) = ''ship-'' @ String_int 1000"
proof -
  have h: "truthy_id (zv_mmsi named_vessel) \<or> truthy_id (zv_imo named_vessel)
      \<or> zv_vessel_name named_vessel \<noteq> [] \<or> zv_received named_vessel \<noteq> []"
    by (simp add: named_vessel_def)
  have g: "\<not> truthy_id (zv_mmsi anonymous_vessel) \<and> \<not> truthy_id (zv_imo anonymous_vessel)
      \<and> zv_vessel_name anonymous_vessel = [] \<and> zv_received anonymous_vessel = []"
    by (simp add: anonymous_vessel_def)
  have c: "Date_now env_default (clock_reads world0) = 1000"
    by (simp add: env_default_fields world0_def)
  from ship_normalizer_deterministic_when_identified [where vessel = named_vessel
      and env = env_default and w = world0
      and env' = "env_default\<lparr>Date_now := (\<lambda>k. 5)\<rparr>" and w' = "world0\<lparr>clock_reads := 9\<rparr>"] h
  have 1: "mapZoneVesselToShip env_default named_vessel world0
     = (fst (mapZoneVesselToShip (env_default\<lparr>Date_now := (\<lambda>k. 5)\<rparr>) named_vessel (world0\<lparr>clock_reads := 9\<rparr>)), world0)"
    by blast
  from ship_normalizer_deterministic_when_identified [where vessel = anonymous_vessel
      and env = env_default and w = world0] g
  have 2: "ss_id (fst (mapZoneVesselToShip env_default anonymous_vessel world0))
      = ''ship-'' @ String_int (Date_now env_default (clock_reads world0))"
    by blast
  show ?thesis using 1 2 c by simp
qed

section \<open>Area search\<close>





lemma mapZoneResults_length: "length (mapZoneResults env ships) \<le> MAX_RESULTS env"
  by (simp add: mapZoneResults_def)


lemma fetchVesselsInArea_Inr:
  "fetchVesselsInArea env expression options w = (Inr result, w1) \<Longrightarrow>
   \<exists>boxes d. tokenizeAreaExpression env expression = Inr boxes
     \<and> areaLoop env (formatMinutesBack env (opt_minutesBack options)) boxes [] w = (Inr d, w1)
     \<and> result = mapZoneResults env (map snd d)"
  by (auto simp: fetchVesselsInArea_def split: sum.splits prod.splits)


lemma areaLoop_short_circuit:
  "boxes1 \<noteq> [] \<Longrightarrow> areaLoop env mb boxes1 d w = (Inr d1, w1) \<Longrightarrow> MAX_RESULTS env \<le> length d1 \<Longrightarrow>
   areaLoop env mb (boxes1 @ boxes2) d w = (Inr d1, w1)"
proof (induction boxes1 arbitrary: d w)
  case Nil
  then show ?case by simp
next
  case (Cons box boxes)
  obtain r w0 where z: "getVesselsInZone env (areaQuery box mb) w = (r, w0)"
    by (cases "getVesselsInZone env (areaQuery box mb) w")
  show ?case
  proof (cases r)
    case (Inl e)
    with Cons.prems(2) z show ?thesis by simp
  next
    case (Inr vessels)
    obtain d2 w2 where f: "forEachVessel env vessels d w0 = (d2, w2)"
      by (cases "forEachVessel env vessels d w0")
    show ?thesis
    proof (cases "MAX_RESULTS env \<le> length d2")
      case True
      with Cons.prems(2) z Inr f show ?thesis by simp
    next
      case False
      with Cons.prems(2) z Inr f have rec: "areaLoop env mb boxes d2 w2 = (Inr d1, w1)" by simp
      have ne: "boxes \<noteq> []"
      proof
        assume "boxes = []"
        with rec have "d1 = d2" by simp
        with False Cons.prems(3) show False by simp
      qed
      from Cons.IH [OF ne rec Cons.prems(3)] z Inr f False show ?thesis by simp
    qed
  qed
qed

lemma areaLoop_zone:
  "areaLoop env mb boxes d w = (r, w1) \<Longrightarrow>
   \<exists>n. (boxes \<noteq> [] \<longrightarrow> 0 < n) \<and> n \<le> length boxes
     \<and> zone_log w1 = zone_log w @ map (\<lambda>box. areaQuery box mb) (take n boxes)"
proof (induction boxes arbitrary: d w)
  case Nil
  then show ?case by simp
next
  case (Cons box boxes)
  obtain r0 w0 where z: "getVesselsInZone env (areaQuery box mb) w = (r0, w0)"
    by (cases "getVesselsInZone env (areaQuery box mb) w")
  have l0: "zone_log w0 = zone_log w @ [areaQuery box mb]"
    using getVesselsInZone_zone [of env "areaQuery box mb" w] z by simp
  have one: "zone_log w0 = zone_log w @ map (\<lambda>box. areaQuery box mb) (take 1 (box # boxes))"
    using l0 by simp
  show ?case
  proof (cases r0)
    case (Inl e)
    with Cons.prems z have "w1 = w0" by simp
    with one show ?thesis by (intro exI [of _ 1]) simp
  next
    case (Inr vessels)
    obtain d2 w2 where f: "forEachVessel env vessels d w0 = (d2, w2)"
      by (cases "forEachVessel env vessels d w0")
    have l2: "zone_log w2 = zone_log w0" using f by (rule forEachVessel_zone)
    show ?thesis
    proof (cases "MAX_RESULTS env \<le> length d2")
      case True
      with Cons.prems z Inr f have "w1 = w2" by simp
      with one l2 show ?thesis by (intro exI [of _ 1]) simp
    next
      case False
      with Cons.prems z Inr f have rec: "areaLoop env mb boxes d2 w2 = (r, w1)" by simp
      from Cons.IH [OF rec] obtain n where n: "n \<le> length boxes"
        "zone_log w1 = zone_log w2 @ map (\<lambda>box. areaQuery box mb) (take n boxes)" by blast
      then have "zone_log w1 = zone_log w @ map (\<lambda>box. areaQuery box mb) (take (Suc n) (box # boxes))"
        using l0 l2 by simp
      with n(1) show ?thesis by (intro exI [of _ "Suc n"]) simp
    qed
  qed
qed

lemma tokenizeAreaExpression_nonempty:
  "tokenizeAreaExpression env expression = Inr boxes \<Longrightarrow> boxes \<noteq> []"
  by (auto simp: tokenizeAreaExpression_def split: if_splits sum.splits)

lemma fetchVesselsInArea_zone:
  assumes "tokenizeAreaExpression env expression = Inr boxes"
  shows "\<exists>n. 0 < n \<and> n \<le> length boxes
     \<and> zone_log (snd (fetchVesselsInArea env expression options w)) =
         zone_log w @ map (\<lambda>box. areaQuery box (formatMinutesBack env (opt_minutesBack options))) (take n boxes)"
proof -
  let ?mb = "formatMinutesBack env (opt_minutesBack options)"
  obtain r w1 where l: "areaLoop env ?mb boxes [] w = (r, w1)"
    by (cases "areaLoop env ?mb boxes [] w")
  have s: "snd (fetchVesselsInArea env expression options w) = w1"
    using assms l by (cases r) (simp_all add: fetchVesselsInArea_def)
  from areaLoop_zone [OF l] tokenizeAreaExpression_nonempty [OF assms]
  show ?thesis unfolding s by blast
qed

text \<open>
  C3 (as amended). An area search never returns more entries than the configured
  maximum. The cap is tested after the batch of each box has been merged: the first box
  is always queried, and the queries issued are those of the first boxes of the
  expression, in order. Once the records kept have reached the cap after a box, the boxes
  that remain are not queried: the result and the state after the call, with its cache,
  its log of upstream calls and its record of zone queries, are those reached at that
  box.
\<close>

theorem fetchVesselsInArea_result_cap:
  "(fetchVesselsInArea env expression options w = (Inr result, w1) \<longrightarrow> length result \<le> MAX_RESULTS env)
   \<and> (tokenizeAreaExpression env expression = Inr (boxes1 @ boxes2) \<and> boxes1 \<noteq> []
        \<and> areaLoop env (formatMinutesBack env (opt_minutesBack options)) boxes1 [] w = (Inr d1, w2)
        \<and> MAX_RESULTS env \<le> length d1 \<longrightarrow>
        fetchVesselsInArea env expression options w = (Inr (mapZoneResults env (map snd d1)), w2)
        \<and> (\<exists>n. 0 < n \<and> n \<le> length boxes1
             \<and> zone_log w2 = zone_log w
                 @ map (\<lambda>box. areaQuery box (formatMinutesBack env (opt_minutesBack options))) (take n boxes1)))
   \<and> (tokenizeAreaExpression env expression = Inr boxes \<longrightarrow>
        (\<exists>n. 0 < n \<and> n \<le> length boxes
           \<and> zone_log (snd (fetchVesselsInArea env expression options w)) = zone_log w
               @ map (\<lambda>box. areaQuery box (formatMinutesBack env (opt_minutesBack options))) (take n boxes)))"
proof (intro conjI impI)
  assume "fetchVesselsInArea env expression options w = (Inr result, w1)"
  then show "length result \<le> MAX_RESULTS env"
    using fetchVesselsInArea_Inr mapZoneResults_length by blast
next
  assume a: "tokenizeAreaExpression env expression = Inr (boxes1 @ boxes2) \<and> boxes1 \<noteq> []
        \<and> areaLoop env (formatMinutesBack env (opt_minutesBack options)) boxes1 [] w = (Inr d1, w2)
        \<and> MAX_RESULTS env \<le> length d1"
  then have "areaLoop env (formatMinutesBack env (opt_minutesBack options)) (boxes1 @ boxes2) [] w = (Inr d1, w2)"
    using areaLoop_short_circuit by blast
  with a show "fetchVesselsInArea env expression options w = (Inr (mapZoneResults env (map snd d1)), w2)"
    by (simp add: fetchVesselsInArea_def)
  from a have l: "areaLoop env (formatMinutesBack env (opt_minutesBack options)) boxes1 [] w = (Inr d1, w2)"
    and ne: "boxes1 \<noteq> []" by simp_all
  from areaLoop_zone [OF l] ne
  show "\<exists>n. 0 < n \<and> n \<le> length boxes1
             \<and> zone_log w2 = zone_log w
                 @ map (\<lambda>box. areaQuery box (formatMinutesBack env (opt_minutesBack options))) (take n boxes1)"
    by blast
next
  assume "tokenizeAreaExpression env expression = Inr boxes"
  then show "\<exists>n. 0 < n \<and> n \<le> length boxes
           \<and> zone_log (snd (fetchVesselsInArea env expression options w)) = zone_log w
               @ map (\<lambda>box. areaQuery box (formatMinutesBack env (opt_minutesBack options))) (take n boxes)"
    by (rule fetchVesselsInArea_zone)
qed

section \<open>The cache of the upstream client\<close>

lemma update_fresh: "k \<notin> fst ` set al \<Longrightarrow> AList.update k v al = al @ [(k, v)]"
  by (induction al) auto

lemma sanitize_foldl:
  "distinct (map fst acc @ map fst entries) \<Longrightarrow>
   foldl (\<lambda>acc (key, v). if v = PUndef then acc else AList.update key (String_pvalue env v) acc) acc entries
     = acc @ map (\<lambda>(key, v). (key, String_pvalue env v)) (filter (\<lambda>(key, v). v \<noteq> PUndef) entries)"
proof (induction entries arbitrary: acc)
  case Nil
  then show ?case by simp
next
  case (Cons e es)
  obtain k v where e: "e = (k, v)" by (cases e)
  show ?case
  proof (cases "v = PUndef")
    case True
    with Cons e show ?thesis by simp
  next
    case False
    have fresh: "k \<notin> fst ` set acc" using Cons.prems e by auto
    have d: "distinct (map fst (acc @ [(k, String_pvalue env v)]) @ map fst es)"
      using Cons.prems e by auto
    show ?thesis
      using Cons.IH [OF d] False e by (simp add: update_fresh [OF fresh])
  qed
qed

lemma sanitizeParams_distinct:
  "distinct (map fst entries) \<Longrightarrow>
   sanitizeParams env (Some entries)
     = map (\<lambda>(key, v). (key, String_pvalue env v)) (filter (\<lambda>(key, v). v \<noteq> PUndef) entries)"
  using sanitize_foldl [of "[]" entries env] by (simp add: sanitizeParams_def)

lemma sanitizeParams_keys_distinct:
  "distinct (map fst entries) \<Longrightarrow> distinct (map fst (sanitizeParams env (Some entries)))"
proof -
  assume d: "distinct (map fst entries)"
  have f: "fst \<circ> (\<lambda>(key, v). (key, String_pvalue env v)) = fst"
    by (auto simp: fun_eq_iff)
  show ?thesis
    using d by (simp add: sanitizeParams_distinct distinct_map_filter f)
qed

lemma sanitizeParams_set:
  "distinct (map fst entries) \<Longrightarrow> distinct (map fst entries') \<Longrightarrow> set entries' = set entries \<Longrightarrow>
   set (sanitizeParams env (Some entries')) = set (sanitizeParams env (Some entries))"
  by (simp add: sanitizeParams_distinct)

lemma buildCacheKey_order:
  assumes "distinct (map fst ps)" "distinct (map fst ps')" "set ps' = set ps"
  shows "buildCacheKey path (Some ps') = buildCacheKey path (Some ps)"
proof -
  have m: "map_of ps' = map_of ps"
    using assms by (simp add: map_of_inject_set)
  have "set (map fst ps') = set (map fst ps)" using assms(3) by simp
  then have s: "sort (map fst ps') = sort (map fst ps)"
    using assms(1,2) by (intro sorted_distinct_set_unique) simp_all
  show ?thesis by (simp add: buildCacheKey_def m s)
qed

text \<open>The same parameters in any key order give the same cache key.\<close>

lemma cacheKey_any_order:
  assumes "distinct (map fst entries)" "distinct (map fst entries')" "set entries' = set entries"
  shows "buildCacheKey path (Some (sanitizeParams env (Some entries')))
       = buildCacheKey path (Some (sanitizeParams env (Some entries)))"
  using assms
  by (intro buildCacheKey_order sanitizeParams_keys_distinct sanitizeParams_set)

text \<open>A lookup that finds a live entry with a truthy payload answers from the cache.\<close>

lemma request_hit:
  assumes "0 < cacheMs"
    and "cache w (buildCacheKey path (Some (sanitizeParams env params))) = Some entry"
    and "\<not> expiresAt entry < Date_now env (clock_reads w)"
    and "truthy (payload entry)"
  shows "request env path params cacheMs w = (Inr (payload entry), w\<lparr>clock_reads := Suc (clock_reads w)\<rparr>)"
  using assms by (simp add: request_def readCache_def now_def Let_def)

lemma after_lookup_log: "http_log (after_lookup env key cacheMs w) = http_log w"
  using readCache_log [of env key w] by (cases "readCache env key w") (simp add: after_lookup_def)

lemma request_cases:
  "request env path params cacheMs w =
    (let ps = sanitizeParams env params;
         key = buildCacheKey path (Some ps);
         hit = (if cacheMs > 0 then
                  (case fst (readCache env key w) of None \<Rightarrow> None
                   | Some c \<Rightarrow> if truthy c then Some c else None)
                else None);
         w1 = after_lookup env key cacheMs w
     in case hit of
          Some c \<Rightarrow> (Inr c, w1)
        | None \<Rightarrow>
           (case apiKey env of
              Inl e \<Rightarrow> (Inl e, w1)
            | Inr k \<Rightarrow>
               (let w2 = w1\<lparr>http_log := http_log w @ [(path, ps)]\<rparr> in
                case fetch env (length (http_log w)) path ps of
                  NetworkError m \<Rightarrow> (Inl (NetworkFailure m), w2)
                | Response r \<Rightarrow>
                   (case http_body r of
                      Malformed m \<Rightarrow> (Inl (ParseFailure path m), w2)
                    | JsonNull \<Rightarrow> (Inl TypeError, w2)
                    | Envelope p \<Rightarrow>
                       if \<not> ok r \<or> env_status p \<noteq> Some ''success''
                       then (Inl (RequestFailed
                               (case env_code p of None \<Rightarrow> String_int (http_status r) | Some c \<Rightarrow> c)
                               (case env_message p of None \<Rightarrow> ''Unknown error'' | Some m \<Rightarrow> m)), w2)
                       else (Inr (env_data p), writeCache env key (env_data p) cacheMs w2)))))"
proof -
  have l: "http_log (snd (readCache env key w)) = http_log w" for key
    using readCache_log [of env key w] by (cases "readCache env key w") simp
  have wc: "\<not> 0 < cacheMs \<Longrightarrow> writeCache env key p cacheMs w' = w'" for key p w'
    by (simp add: writeCache_def)
  show ?thesis
    by (simp add: request_def after_lookup_def Let_def split_beta l wc
        cong: option.case_cong sum.case_cong fetch_result.case_cong body.case_cong if_cong)
qed

lemma request_upstream_success:
  assumes r: "request env path params ttl w = (Inr data, w1)" and l: "http_log w1 \<noteq> http_log w"
  shows "(\<exists>k. apiKey env = Inr k)
    \<and> w1 = writeCache env (buildCacheKey path (Some (sanitizeParams env params))) data ttl
        ((after_lookup env (buildCacheKey path (Some (sanitizeParams env params))) ttl w)
           \<lparr>http_log := http_log w @ [(path, sanitizeParams env params)]\<rparr>)"
  using r l
  by (auto simp: request_cases Let_def after_lookup_log
      split: option.splits sum.splits fetch_result.splits body.splits if_splits)

lemma request_miss_log:
  assumes "apiKey env = Inr k"
    and "cacheMs \<le> 0 \<or> fst (readCache env (buildCacheKey path (Some (sanitizeParams env params))) w) = None"
  shows "http_log (snd (request env path params cacheMs w)) = http_log w @ [(path, sanitizeParams env params)]"
  using assms
  by (auto simp: request_cases Let_def writeCache_log
      split: option.splits sum.splits fetch_result.splits body.splits if_splits)

lemma readCache_expired:
  "cache w key = Some entry \<Longrightarrow> expiresAt entry < Date_now env (clock_reads w) \<Longrightarrow>
   fst (readCache env key w) = None"
  by (simp add: readCache_def now_def)

lemma writeCache_entry:
  "0 < ttl \<Longrightarrow>
   cache (writeCache env key p ttl w) key = Some \<lparr>expiresAt = Date_now env (clock_reads w) + ttl, payload = p\<rparr>
   \<and> clock_reads (writeCache env key p ttl w) = Suc (clock_reads w)"
  by (simp add: writeCache_def now_def)

text \<open>
  C1 (as amended). Let a request with a positive time-to-live go upstream and succeed
  with a truthy payload (every array and object is one). Its entry expires at the clock
  reading taken when it was written plus the time-to-live. A second request with the
  same path and the same parameters, in any key order, issued at a time up to and
  including that expiry performs no upstream call and returns the cached payload, so the
  two together caused one call; issued after it, the second request calls upstream again.
\<close>

theorem request_cached_within_ttl:
  assumes "0 < ttl"
    and "request env path (Some entries) ttl w = (Inr data, w1)"
    and "http_log w1 \<noteq> http_log w"
    and "truthy data"
    and "distinct (map fst entries)" and "distinct (map fst entries')" and "set entries' = set entries"
  shows "cache w1 (buildCacheKey path (Some (sanitizeParams env (Some entries))))
           = Some \<lparr>expiresAt = Date_now env (clock_reads w1 - 1) + ttl, payload = data\<rparr>
    \<and> http_log w1 = http_log w @ [(path, sanitizeParams env (Some entries))]
    \<and> (Date_now env (clock_reads w1) \<le> Date_now env (clock_reads w1 - 1) + ttl \<longrightarrow>
         request env path (Some entries') ttl w1 = (Inr data, w1\<lparr>clock_reads := Suc (clock_reads w1)\<rparr>))
    \<and> (Date_now env (clock_reads w1 - 1) + ttl < Date_now env (clock_reads w1) \<longrightarrow>
         http_log (snd (request env path (Some entries') ttl w1))
           = http_log w @ [(path, sanitizeParams env (Some entries)), (path, sanitizeParams env (Some entries'))])"
proof -
  let ?key = "buildCacheKey path (Some (sanitizeParams env (Some entries)))"
  let ?key' = "buildCacheKey path (Some (sanitizeParams env (Some entries')))"
  let ?w0 = "(after_lookup env ?key ttl w)\<lparr>http_log := http_log w @ [(path, sanitizeParams env (Some entries))]\<rparr>"
  let ?entry = "\<lparr>expiresAt = Date_now env (clock_reads w1 - 1) + ttl, payload = data\<rparr>"
  have k: "?key' = ?key"
    using assms(5,6,7) by (intro cacheKey_any_order)
  from request_upstream_success [OF assms(2,3)]
  obtain ak where ak: "apiKey env = Inr ak" and w1: "w1 = writeCache env ?key data ttl ?w0"
    by blast
  have c: "cache w1 ?key = Some ?entry"
    using writeCache_entry [OF assms(1), of env ?key data ?w0] w1 by simp
  have l: "http_log w1 = http_log w @ [(path, sanitizeParams env (Some entries))]"
    unfolding w1 by (simp add: writeCache_log)
  have hit: "request env path (Some entries') ttl w1 = (Inr data, w1\<lparr>clock_reads := Suc (clock_reads w1)\<rparr>)"
    if "Date_now env (clock_reads w1) \<le> Date_now env (clock_reads w1 - 1) + ttl"
  proof -
    have c': "cache w1 ?key' = Some ?entry" using c k by simp
    have live: "\<not> expiresAt ?entry < Date_now env (clock_reads w1)" using that by simp
    have t: "truthy (payload ?entry)" using assms(4) by simp
    from request_hit [OF assms(1) c' live t] show ?thesis by simp
  qed
  have miss: "http_log (snd (request env path (Some entries') ttl w1))
           = http_log w @ [(path, sanitizeParams env (Some entries)), (path, sanitizeParams env (Some entries'))]"
    if "Date_now env (clock_reads w1 - 1) + ttl < Date_now env (clock_reads w1)"
  proof -
    have c': "cache w1 ?key' = Some ?entry" using c k by simp
    have e: "expiresAt ?entry < Date_now env (clock_reads w1)" using that by simp
    have n: "fst (readCache env ?key' w1) = None"
      using c' e by (rule readCache_expired)
    from request_miss_log [OF ak, of ttl path "Some entries'" w1] n l show ?thesis by simp
  qed
  show ?thesis using c l hit miss by blast
qed

lemma request_cold_success:
  assumes "0 < ttl"
    and "cache w (buildCacheKey path (Some (sanitizeParams env params))) = None"
    and "apiKey env = Inr k"
    and "fetch env (length (http_log w)) path (sanitizeParams env params) = Response r"
    and "http_body r = Envelope p" and "ok r" and "env_status p = Some ''success''"
  shows "request env path params ttl w =
     (Inr (env_data p),
      writeCache env (buildCacheKey path (Some (sanitizeParams env params))) (env_data p) ttl
        (w\<lparr>http_log := http_log w @ [(path, sanitizeParams env params)]\<rparr>))"
  using assms by (simp add: request_def readCache_def Let_def)

lemma env_clock_fields:
  "apiKey (env_clock step) = Inr ''key''"
  "Date_now (env_clock step) k = 1000 + step * int k"
  "fetch (env_clock step) k path params = zone_response [named_vessel]"
  by (simp_all add: env_clock_def env_default_def apiKey_def)

lemma env_clock_first:
  "request (env_clock step) ''vessel/zone'' (Some box_params) 300 world0 =
     (Inr (ZoneVessels [named_vessel]),
      writeCache (env_clock step) (buildCacheKey ''vessel/zone'' (Some (sanitizeParams (env_clock step) (Some box_params))))
        (ZoneVessels [named_vessel]) 300
        (world0\<lparr>http_log := [(''vessel/zone'', sanitizeParams (env_clock step) (Some box_params))]\<rparr>))"
proof -
  have c: "cache world0 (buildCacheKey ''vessel/zone'' (Some (sanitizeParams (env_clock step) (Some box_params)))) = None"
    by (simp add: world0_def)
  have l: "http_log world0 = []" by (simp add: world0_def)
  have f: "fetch (env_clock step) (length (http_log world0)) ''vessel/zone'' (sanitizeParams (env_clock step) (Some box_params))
      = Response \<lparr>ok = True, http_status = 200,
       http_body = Envelope \<lparr>env_status = Some ''success'', env_data = ZoneVessels [named_vessel],
                              env_message = None, env_code = None\<rparr>\<rparr>"
    by (simp add: env_clock_fields zone_response_def)
  from request_cold_success [OF _ c env_clock_fields(1) f] l show ?thesis by simp
qed

lemma env_clock_first_state:
  "clock_reads (snd (request (env_clock step) ''vessel/zone'' (Some box_params) 300 world0)) = 1
   \<and> http_log (snd (request (env_clock step) ''vessel/zone'' (Some box_params) 300 world0))
       = [(''vessel/zone'', sanitizeParams (env_clock step) (Some box_params))]
   \<and> cache (snd (request (env_clock step) ''vessel/zone'' (Some box_params) 300 world0))
        (buildCacheKey ''vessel/zone'' (Some (sanitizeParams (env_clock step) (Some box_params))))
       = Some \<lparr>expiresAt = 1300, payload = ZoneVessels [named_vessel]\<rparr>"
  unfolding env_clock_first
  by (simp add: writeCache_def now_def world0_def env_clock_fields)

text \<open>As the claim states it, a second query issued at the expiry of the entry calls
  upstream again. With a time-to-live of 300 ms, an entry written at 1000 ms and a second
  query at 1300 ms, the entry is still served and the log of upstream calls stays at one.\<close>

theorem request_at_expiry_counterexample:
  "map_option expiresAt
     (cache (snd (request (env_clock 300) ''vessel/zone'' (Some box_params) 300 world0))
        (buildCacheKey ''vessel/zone'' (Some (sanitizeParams (env_clock 300) (Some box_params))))) = Some 1300
   \<and> Date_now (env_clock 300)
       (clock_reads (snd (request (env_clock 300) ''vessel/zone'' (Some box_params) 300 world0))) = 1300
   \<and> fst (request (env_clock 300) ''vessel/zone'' (Some box_params) 300
        (snd (request (env_clock 300) ''vessel/zone'' (Some box_params) 300 world0)))
       = Inr (ZoneVessels [named_vessel])
   \<and> length (http_log (snd (request (env_clock 300) ''vessel/zone'' (Some box_params) 300
        (snd (request (env_clock 300) ''vessel/zone'' (Some box_params) 300 world0))))) = 1"
proof -
  let ?w1 = "snd (request (env_clock 300) ''vessel/zone'' (Some box_params) 300 world0)"
  let ?key = "buildCacheKey ''vessel/zone'' (Some (sanitizeParams (env_clock 300) (Some box_params)))"
  let ?entry = "\<lparr>expiresAt = 1300, payload = ZoneVessels [named_vessel]\<rparr>"
  note s = env_clock_first_state [of 300]
  have c: "cache ?w1 ?key = Some ?entry" using s by simp
  have live: "\<not> expiresAt ?entry < Date_now (env_clock 300) (clock_reads ?w1)"
    using s by (simp add: env_clock_fields)
  have t: "truthy (payload ?entry)" by simp
  have h: "request (env_clock 300) ''vessel/zone'' (Some box_params) 300 ?w1
      = (Inr (payload ?entry), ?w1\<lparr>clock_reads := Suc (clock_reads ?w1)\<rparr>)"
    using c live t by (intro request_hit) simp_all
  show ?thesis using s h by (simp add: env_clock_fields)
qed

theorem request_cached_within_ttl_witness:
  "request (env_clock 300) ''vessel/zone'' (Some (rev box_params)) 300
       (snd (request (env_clock 300) ''vessel/zone'' (Some box_params) 300 world0))
     = (Inr (ZoneVessels [named_vessel]),
        (snd (request (env_clock 300) ''vessel/zone'' (Some box_params) 300 world0))\<lparr>clock_reads := 2\<rparr>)
   \<and> length (http_log (snd (request (env_clock 301) ''vessel/zone'' (Some (rev box_params)) 300
        (snd (request (env_clock 301) ''vessel/zone'' (Some box_params) 300 world0))))) = 2"
proof -
  have d: "distinct (map fst box_params)" "distinct (map fst (rev box_params))"
    "set (rev box_params) = set box_params"
    by (auto simp: box_params_def)
  have t: "truthy (ZoneVessels [named_vessel])" by simp
  have r: "request (env_clock step) ''vessel/zone'' (Some box_params) 300 world0
      = (Inr (ZoneVessels [named_vessel]), snd (request (env_clock step) ''vessel/zone'' (Some box_params) 300 world0))" for step
    by (simp add: env_clock_first)
  have l: "http_log (snd (request (env_clock step) ''vessel/zone'' (Some box_params) 300 world0)) \<noteq> http_log world0" for step
    using env_clock_first_state [of step] by (simp add: world0_def)
  have p: "(0::int) < 300" by simp
  from request_cached_within_ttl [OF p r l t d, of 300] env_clock_first_state [of 300]
  have a: "request (env_clock 300) ''vessel/zone'' (Some (rev box_params)) 300
       (snd (request (env_clock 300) ''vessel/zone'' (Some box_params) 300 world0))
     = (Inr (ZoneVessels [named_vessel]),
        (snd (request (env_clock 300) ''vessel/zone'' (Some box_params) 300 world0))\<lparr>clock_reads := 2\<rparr>)"
    by (simp add: env_clock_fields)
  from request_cached_within_ttl [OF p r l t d, of 301] env_clock_first_state [of 301]
  have b: "length (http_log (snd (request (env_clock 301) ''vessel/zone'' (Some (rev box_params)) 300
        (snd (request (env_clock 301) ''vessel/zone'' (Some box_params) 300 world0))))) = 2"
    by (simp add: env_clock_fields world0_def)
  show ?thesis using a b by simp
qed

section \<open>Area search on concrete upstreams\<close>

lemma getVesselsInZone_cold:
  assumes "cache w (buildCacheKey ''vessel/zone'' (Some (sanitizeParams env (Some (zoneParams query))))) = None"
    and "apiKey env = Inr k"
    and "fetch env (length (http_log w)) ''vessel/zone'' (sanitizeParams env (Some (zoneParams query)))
           = zone_response vessels"
  shows "getVesselsInZone env query w =
     (Inr vessels,
      writeCache env (buildCacheKey ''vessel/zone'' (Some (sanitizeParams env (Some (zoneParams query)))))
        (ZoneVessels vessels) 300000
        (w\<lparr>zone_log := zone_log w @ [query],
           http_log := http_log w @ [(''vessel/zone'', sanitizeParams env (Some (zoneParams query)))]\<rparr>))"
proof -
  let ?w = "w\<lparr>zone_log := zone_log w @ [query]\<rparr>"
  have p: "(0::int) < 300000" by simp
  have c: "cache ?w (buildCacheKey ''vessel/zone'' (Some (sanitizeParams env (Some (zoneParams query))))) = None"
    using assms(1) by simp
  have f: "fetch env (length (http_log ?w)) ''vessel/zone'' (sanitizeParams env (Some (zoneParams query)))
      = Response \<lparr>ok = True, http_status = 200,
          http_body = Envelope \<lparr>env_status = Some ''success'', env_data = ZoneVessels vessels,
                                 env_message = None, env_code = None\<rparr>\<rparr>"
    using assms(3) by (simp add: zone_response_def)
  from request_cold_success [OF p c assms(2) f]
  show ?thesis by (simp add: getVesselsInZone_def typed_def)
qed

lemma areaLoop_step_cap:
  "getVesselsInZone env (areaQuery box mb) w = (Inr vessels, w1) \<Longrightarrow>
   forEachVessel env vessels d w1 = (d1, w2) \<Longrightarrow> MAX_RESULTS env \<le> length d1 \<Longrightarrow>
   areaLoop env mb (box # boxes) d w = (Inr d1, w2)"
  by simp

lemma areaLoop_step_more:
  "getVesselsInZone env (areaQuery box mb) w = (Inr vessels, w1) \<Longrightarrow>
   forEachVessel env vessels d w1 = (d1, w2) \<Longrightarrow> \<not> MAX_RESULTS env \<le> length d1 \<Longrightarrow>
   areaLoop env mb (box # boxes) d w = areaLoop env mb boxes d1 w2"
  by simp

lemma forEachVessel_step:
  "mapZoneVesselToShip env vessel w = (mapped, w1) \<Longrightarrow>
   forEachVessel env (vessel # vessels) d w =
     forEachVessel env vessels (if \<not> dedup_has d (ss_id mapped) then d @ [(ss_id mapped, mapped)] else d) w1"
  by simp

lemma String_int_2473: "String_int 2473 = ''2473''"
  by (simp add: String_int_def String_nat.simps digit_char_def)

lemma String_int_5120: "String_int 5120 = ''5120''"
  by (simp add: String_int_def String_nat.simps digit_char_def)

lemma named_ship_fields:
  "ss_id named_ship = ''2473''" "ss_lat named_ship = Num 36" "ss_lon named_ship = Num 12"
  "ss_speed named_ship = 11"
  by (simp_all add: named_ship_def mapZoneVesselToShip_def buildShipId_def split_beta
      named_vessel_def String_int_2473)

lemma other_ship_fields:
  "ss_id other_ship = ''5120''" "ss_lat other_ship = Num 4" "ss_lon other_ship = Num 4"
  by (simp_all add: other_ship_def mapZoneVesselToShip_def buildShipId_def split_beta
      other_vessel_def String_int_5120)

lemma map_named: "mapZoneVesselToShip env named_vessel w = (named_ship, w)"
  unfolding named_ship_def by (rule mapZone_identified) (simp add: named_vessel_def)

lemma map_other: "mapZoneVesselToShip env other_vessel w = (other_ship, w)"
  unfolding other_ship_def by (rule mapZone_identified) (simp add: other_vessel_def)


lemma tokens_cap2: "tokenizeAreaExpression env_cap2 two_boxes = Inr ([box1] @ [box2])"
  by code_simp

lemma env_cap2_fields:
  "apiKey env_cap2 = Inr ''key''"
  "MAX_RESULTS env_cap2 = 2"
  "DEFAULT_MINUTES_BACK env_cap2 = 60"
  "fetch env_cap2 k path params = zone_response [named_vessel, other_vessel]"
  by (simp_all add: env_cap2_def env_default_def apiKey_def)

theorem fetchVesselsInArea_result_cap_witness:
  "fst (fetchVesselsInArea env_cap2 two_boxes \<lparr>opt_minutesBack = None\<rparr> world0) = Inr [named_ship, other_ship]
   \<and> length [named_ship, other_ship] \<le> MAX_RESULTS env_cap2
   \<and> length (http_log (snd (fetchVesselsInArea env_cap2 two_boxes \<lparr>opt_minutesBack = None\<rparr> world0))) = 1
   \<and> zone_log (snd (fetchVesselsInArea env_cap2 two_boxes \<lparr>opt_minutesBack = None\<rparr> world0)) = [areaQuery box1 60]"
proof -
  let ?key = "buildCacheKey ''vessel/zone'' (Some (sanitizeParams env_cap2 (Some (zoneParams (areaQuery box1 60)))))"
  let ?w1 = "writeCache env_cap2 ?key (ZoneVessels [named_vessel, other_vessel]) 300000
        (world0\<lparr>zone_log := zone_log world0 @ [areaQuery box1 60],
           http_log := http_log world0 @ [(''vessel/zone'', sanitizeParams env_cap2 (Some (zoneParams (areaQuery box1 60))))]\<rparr>)"
  let ?d1 = "[(''2473'', named_ship), (''5120'', other_ship)]"
  let ?opts = "\<lparr>opt_minutesBack = None\<rparr>"
  have mb: "formatMinutesBack env_cap2 (opt_minutesBack ?opts) = 60"
    by (simp add: formatMinutesBack_def env_cap2_fields)
  have z: "getVesselsInZone env_cap2 (areaQuery box1 60) world0 = (Inr [named_vessel, other_vessel], ?w1)"
    by (rule getVesselsInZone_cold) (simp_all add: world0_def env_cap2_fields)
  have f: "forEachVessel env_cap2 [named_vessel, other_vessel] [] ?w1 = (?d1, ?w1)"
    by (simp add: forEachVessel_step [OF map_named] forEachVessel_step [OF map_other]
        named_ship_fields other_ship_fields dedup_has_def del: forEachVessel.simps(2))
  have loop: "areaLoop env_cap2 (formatMinutesBack env_cap2 (opt_minutesBack ?opts)) [box1] [] world0 = (Inr ?d1, ?w1)"
    unfolding mb by (rule areaLoop_step_cap [OF z f]) (simp add: env_cap2_fields)
  have r: "mapZoneResults env_cap2 (map snd ?d1) = [named_ship, other_ship]"
    by (simp add: mapZoneResults_def env_cap2_fields named_ship_fields other_ship_fields)
  have l: "length (http_log ?w1) = 1"
    by (simp add: writeCache_log world0_def)
  note T = fetchVesselsInArea_result_cap [of env_cap2 two_boxes ?opts world0 "[named_ship, other_ship]" ?w1
        "[box1]" "[box2]" ?d1 ?w1 "[box1, box2]"]
  have e: "fetchVesselsInArea env_cap2 two_boxes ?opts world0 = (Inr [named_ship, other_ship], ?w1)"
    using T [THEN conjunct2, THEN conjunct1] loop r
    by (simp add: env_cap2_fields tokens_cap2)
  have c: "length [named_ship, other_ship] \<le> MAX_RESULTS env_cap2"
    using T [THEN conjunct1] e by blast
  have zl: "zone_log ?w1 = [areaQuery box1 60]"
    by (simp add: writeCache_zone world0_def)
  show ?thesis using e c l zl by simp
qed

lemma env_cap0_fields:
  "apiKey env_cap0 = Inr ''key''"
  "MAX_RESULTS env_cap0 = 0"
  "DEFAULT_MINUTES_BACK env_cap0 = 60"
  "fetch env_cap0 k path params = zone_response [named_vessel, other_vessel]"
  by (simp_all add: env_cap0_def env_cap2_def env_default_def apiKey_def)

lemma normalizeBox_cap: "normalizeBox (env\<lparr>MAX_RESULTS := n\<rparr>) = normalizeBox env"
  by (rule ext) (simp add: normalizeBox_def)

lemma parseBoundingBoxToken_cap:
  "parseBoundingBoxToken (env\<lparr>MAX_RESULTS := n\<rparr>) = parseBoundingBoxToken env"
  by (rule ext) (simp add: parseBoundingBoxToken_def Let_def cong: if_cong option.case_cong list.case_cong)

lemma tokenizeAreaExpression_cap:
  "tokenizeAreaExpression (env\<lparr>MAX_RESULTS := n\<rparr>) expression = tokenizeAreaExpression env expression"
  by (simp add: tokenizeAreaExpression_def normalizeBox_cap parseBoundingBoxToken_cap)

lemma tokens_cap0: "tokenizeAreaExpression env_cap0 two_boxes = Inr [box1, box2]"
  using tokens_cap2 by (simp add: env_cap0_def tokenizeAreaExpression_cap)

text \<open>With a cap of 0 the set of records kept has reached the cap before any box is
  queried, and the first box is queried all the same: one zone query, one upstream call,
  and an empty result.\<close>

theorem fetchVesselsInArea_zero_cap_counterexample:
  "MAX_RESULTS env_cap0 = 0
   \<and> tokenizeAreaExpression env_cap0 two_boxes = Inr [box1, box2]
   \<and> fst (fetchVesselsInArea env_cap0 two_boxes \<lparr>opt_minutesBack = None\<rparr> world0) = Inr []
   \<and> zone_log (snd (fetchVesselsInArea env_cap0 two_boxes \<lparr>opt_minutesBack = None\<rparr> world0)) = [areaQuery box1 60]
   \<and> length (http_log (snd (fetchVesselsInArea env_cap0 two_boxes \<lparr>opt_minutesBack = None\<rparr> world0))) = 1"
proof -
  let ?key = "buildCacheKey ''vessel/zone'' (Some (sanitizeParams env_cap0 (Some (zoneParams (areaQuery box1 60)))))"
  let ?w1 = "writeCache env_cap0 ?key (ZoneVessels [named_vessel, other_vessel]) 300000
        (world0\<lparr>zone_log := zone_log world0 @ [areaQuery box1 60],
           http_log := http_log world0 @ [(''vessel/zone'', sanitizeParams env_cap0 (Some (zoneParams (areaQuery box1 60))))]\<rparr>)"
  let ?d1 = "[(''2473'', named_ship), (''5120'', other_ship)]"
  let ?opts = "\<lparr>opt_minutesBack = None\<rparr>"
  have mb: "formatMinutesBack env_cap0 (opt_minutesBack ?opts) = 60"
    by (simp add: formatMinutesBack_def env_cap0_fields)
  have z: "getVesselsInZone env_cap0 (areaQuery box1 60) world0 = (Inr [named_vessel, other_vessel], ?w1)"
    by (rule getVesselsInZone_cold) (simp_all add: world0_def env_cap0_fields)
  have f: "forEachVessel env_cap0 [named_vessel, other_vessel] [] ?w1 = (?d1, ?w1)"
    by (simp add: forEachVessel_step [OF map_named] forEachVessel_step [OF map_other]
        named_ship_fields other_ship_fields dedup_has_def del: forEachVessel.simps(2))
  have loop: "areaLoop env_cap0 60 [box1, box2] [] world0 = (Inr ?d1, ?w1)"
    by (rule areaLoop_step_cap [OF z f]) (simp add: env_cap0_fields)
  have r: "mapZoneResults env_cap0 (map snd ?d1) = []"
    by (simp add: mapZoneResults_def env_cap0_fields)
  have e: "fetchVesselsInArea env_cap0 two_boxes ?opts world0 = (Inr [], ?w1)"
    using mb r by (simp add: fetchVesselsInArea_def tokens_cap0 loop del: areaLoop.simps)
  have l: "length (http_log ?w1) = 1"
    by (simp add: writeCache_log world0_def)
  have zl: "zone_log ?w1 = [areaQuery box1 60]"
    by (simp add: writeCache_zone world0_def)
  show ?thesis using e l zl by (simp add: env_cap0_fields tokens_cap0)
qed


lemma tokens_overlap: "tokenizeAreaExpression env_overlap two_boxes = Inr [box1, box2]"
  by code_simp

lemma keys_overlap:
  "buildCacheKey ''vessel/zone'' (Some (sanitizeParams env_overlap (Some (zoneParams (areaQuery box1 60)))))
   \<noteq> buildCacheKey ''vessel/zone'' (Some (sanitizeParams env_overlap (Some (zoneParams (areaQuery box2 60)))))"
  by code_simp


section \<open>Oversized boxes\<close>









section \<open>Near-me queries\<close>


lemma safeCos_floor: "one_tenth \<le> safeCos env latitude"
  by (simp add: safeCos_def Let_def)

lemma safeCos_equator: "Math_cos env 0 = 1 \<Longrightarrow> safeCos env 0 = 1"
  by (simp add: safeCos_def fl64_zero one_tenth_def)

lemma divisor_lower: "6 \<le> fl64 (60 * safeCos env latitude)"
proof -
  have "60 * one_tenth \<le> 60 * safeCos env latitude" using safeCos_floor [of env latitude] by simp
  from fl64_mono [OF this] show ?thesis by (simp add: fl64_six)
qed

lemma nauticalMilesToLatDelta_mono:
  "a \<le> b \<Longrightarrow> nauticalMilesToLatDelta a \<le> nauticalMilesToLatDelta b"
  unfolding nauticalMilesToLatDelta_def by (rule fl64_mono) simp

lemma nauticalMilesToLonDelta_mono:
  "a \<le> b \<Longrightarrow> nauticalMilesToLonDelta env a latitude \<le> nauticalMilesToLonDelta env b latitude"
proof -
  assume ab: "a \<le> b"
  have "0 < fl64 (60 * safeCos env latitude)" using divisor_lower [of env latitude] by simp
  then have "a / fl64 (60 * safeCos env latitude) \<le> b / fl64 (60 * safeCos env latitude)"
    using ab by (simp add: divide_right_mono)
  then show ?thesis unfolding nauticalMilesToLonDelta_def by (rule fl64_mono)
qed

lemma nauticalMilesToLonDelta_equator:
  "Math_cos env 0 = 1 \<Longrightarrow> nauticalMilesToLonDelta env r 0 = nauticalMilesToLatDelta r"
  by (simp add: nauticalMilesToLonDelta_def nauticalMilesToLatDelta_def safeCos_equator fl64_60)


lemma clampNumber_cases:
  "clampNumber distance 1 50 = (if distance < 1 then 1 else if 50 < distance then 50 else distance)"
  by (simp add: clampNumber_def)

lemma clampNumber_idem: "clampNumber (clampNumber distance 1 50) 1 50 = clampNumber distance 1 50"
  by (simp add: clampNumber_def)

lemma nearMeQuery_box:
  "nearMeQuery env lat lon distance options =
     \<lparr>minLat = fl64 (lat - nauticalMilesToLatDelta (clampNumber distance 1 50)),
      maxLat = fl64 (lat + nauticalMilesToLatDelta (clampNumber distance 1 50)),
      minLon = fl64 (lon - nauticalMilesToLonDelta env (clampNumber distance 1 50) lat),
      maxLon = fl64 (lon + nauticalMilesToLonDelta env (clampNumber distance 1 50) lat),
      minutesBack = Some (formatMinutesBack env (opt_minutesBack options)),
      response = Some simple\<rparr>"
  by (simp add: nearMeQuery_def Let_def)

lemma nearMeQuery_clamped:
  "nearMeQuery env lat lon (clampNumber distance 1 50) options = nearMeQuery env lat lon distance options"
  by (simp add: nearMeQuery_box clampNumber_idem)

lemma fetchVesselsNearMe_clamped:
  "fetchVesselsNearMe env lat lon (clampNumber distance 1 50) options w =
   fetchVesselsNearMe env lat lon distance options w"
  by (simp add: fetchVesselsNearMe_def nearMeQuery_clamped)

text \<open>
  C10 (as amended). A near-me call derives its box from the caller's radius clamped into
  [1, 50] nautical miles, a radius inside that range being used as it is. The call hands
  \<^verbatim>\<open>getVesselsInZone\<close> one query, for the box of the clamped radius, and its outcome and
  the state it leaves are those of a call with the clamped radius: nothing reports the
  clamp. The deltas of the box are no larger than those the caller's radius gives when
  it is above 50, and no smaller when it is below 1.
\<close>

theorem fetchVesselsNearMe_clamps_radius:
  "clampNumber distance 1 50 = (if distance < 1 then 1 else if 50 < distance then 50 else distance)
   \<and> zone_log (snd (fetchVesselsNearMe env lat lon distance options w)) =
       zone_log w @
       [\<lparr>minLat = fl64 (lat - nauticalMilesToLatDelta (clampNumber distance 1 50)),
         maxLat = fl64 (lat + nauticalMilesToLatDelta (clampNumber distance 1 50)),
         minLon = fl64 (lon - nauticalMilesToLonDelta env (clampNumber distance 1 50) lat),
         maxLon = fl64 (lon + nauticalMilesToLonDelta env (clampNumber distance 1 50) lat),
         minutesBack = Some (formatMinutesBack env (opt_minutesBack options)),
         response = Some simple\<rparr>]
   \<and> fetchVesselsNearMe env lat lon distance options w =
       fetchVesselsNearMe env lat lon (clampNumber distance 1 50) options w
   \<and> (50 < distance \<longrightarrow>
        nauticalMilesToLatDelta (clampNumber distance 1 50) \<le> nauticalMilesToLatDelta distance
        \<and> nauticalMilesToLonDelta env (clampNumber distance 1 50) lat \<le> nauticalMilesToLonDelta env distance lat)
   \<and> (distance < 1 \<longrightarrow>
        nauticalMilesToLatDelta distance \<le> nauticalMilesToLatDelta (clampNumber distance 1 50)
        \<and> nauticalMilesToLonDelta env distance lat \<le> nauticalMilesToLonDelta env (clampNumber distance 1 50) lat)"
proof (intro conjI impI)
  show "clampNumber distance 1 50 = (if distance < 1 then 1 else if 50 < distance then 50 else distance)"
    by (rule clampNumber_cases)
  show "zone_log (snd (fetchVesselsNearMe env lat lon distance options w)) =
       zone_log w @
       [\<lparr>minLat = fl64 (lat - nauticalMilesToLatDelta (clampNumber distance 1 50)),
         maxLat = fl64 (lat + nauticalMilesToLatDelta (clampNumber distance 1 50)),
         minLon = fl64 (lon - nauticalMilesToLonDelta env (clampNumber distance 1 50) lat),
         maxLon = fl64 (lon + nauticalMilesToLonDelta env (clampNumber distance 1 50) lat),
         minutesBack = Some (formatMinutesBack env (opt_minutesBack options)),
         response = Some simple\<rparr>]"
    unfolding fetchVesselsNearMe_zone nearMeQuery_box by (rule refl)
  show "fetchVesselsNearMe env lat lon distance options w =
       fetchVesselsNearMe env lat lon (clampNumber distance 1 50) options w"
    by (rule fetchVesselsNearMe_clamped [symmetric])
next
  assume "50 < distance"
  then have c: "clampNumber distance 1 50 \<le> distance" by (simp add: clampNumber_def)
  from c show "nauticalMilesToLatDelta (clampNumber distance 1 50) \<le> nauticalMilesToLatDelta distance"
    by (rule nauticalMilesToLatDelta_mono)
  from c show "nauticalMilesToLonDelta env (clampNumber distance 1 50) lat \<le> nauticalMilesToLonDelta env distance lat"
    by (rule nauticalMilesToLonDelta_mono)
next
  assume "distance < 1"
  then have c: "distance \<le> clampNumber distance 1 50" by (simp add: clampNumber_def)
  from c show "nauticalMilesToLatDelta distance \<le> nauticalMilesToLatDelta (clampNumber distance 1 50)"
    by (rule nauticalMilesToLatDelta_mono)
  from c show "nauticalMilesToLonDelta env distance lat \<le> nauticalMilesToLonDelta env (clampNumber distance 1 50) lat"
    by (rule nauticalMilesToLonDelta_mono)
qed

lemma env_default_cos: "Math_cos env_default 0 = 1"
  by (simp add: env_default_fields fl64_1)

lemma latDelta_50: "nauticalMilesToLatDelta 50 = 7505999378950827 / 9007199254740992"
  by (simp add: nauticalMilesToLatDelta_def fl64_5_6)

lemma latDelta_1: "nauticalMilesToLatDelta 1 = 4803839602528529 / 288230376151711744"
  by (simp add: nauticalMilesToLatDelta_def fl64_1_60)

theorem fetchVesselsNearMe_clamps_radius_witness:
  "zone_log (snd (fetchVesselsNearMe env_default 0 0 80 \<lparr>opt_minutesBack = None\<rparr> world0)) =
     [\<lparr>minLat = - (7505999378950827 / 9007199254740992), maxLat = 7505999378950827 / 9007199254740992,
       minLon = - (7505999378950827 / 9007199254740992), maxLon = 7505999378950827 / 9007199254740992,
       minutesBack = Some 60, response = Some simple\<rparr>]
   \<and> (50::real) < 80
   \<and> nauticalMilesToLatDelta 50 \<le> nauticalMilesToLatDelta 80
   \<and> nauticalMilesToLonDelta env_default 50 0 \<le> nauticalMilesToLonDelta env_default 80 0
   \<and> zone_log (snd (fetchVesselsNearMe env_default 0 0 (1 / 4) \<lparr>opt_minutesBack = None\<rparr> world0)) =
     [\<lparr>minLat = - (4803839602528529 / 288230376151711744), maxLat = 4803839602528529 / 288230376151711744,
       minLon = - (4803839602528529 / 288230376151711744), maxLon = 4803839602528529 / 288230376151711744,
       minutesBack = Some 60, response = Some simple\<rparr>]
   \<and> (1 / 4 :: real) < 1
   \<and> nauticalMilesToLatDelta (1 / 4) \<le> nauticalMilesToLatDelta 1
   \<and> nauticalMilesToLonDelta env_default (1 / 4) 0 \<le> nauticalMilesToLonDelta env_default 1 0
   \<and> fetchVesselsNearMe env_default 0 0 80 \<lparr>opt_minutesBack = None\<rparr> world0
       = fetchVesselsNearMe env_default 0 0 50 \<lparr>opt_minutesBack = None\<rparr> world0"
proof -
  have c: "clampNumber 80 1 50 = 50" "clampNumber (1 / 4) 1 50 = 1"
    by (simp_all add: clampNumber_def)
  have m: "formatMinutesBack env_default None = 60"
    by (simp add: formatMinutesBack_def env_default_fields)
  have l: "nauticalMilesToLonDelta env_default 50 0 = 7505999378950827 / 9007199254740992"
    "nauticalMilesToLonDelta env_default 1 0 = 4803839602528529 / 288230376151711744"
    by (simp_all add: nauticalMilesToLonDelta_equator [OF env_default_cos] latDelta_50 latDelta_1)
  note T80 = fetchVesselsNearMe_clamps_radius [of 80 env_default 0 0 "\<lparr>opt_minutesBack = None\<rparr>" world0]
  note T14 = fetchVesselsNearMe_clamps_radius [of "1 / 4" env_default 0 0 "\<lparr>opt_minutesBack = None\<rparr>" world0]
  have z80: "zone_log (snd (fetchVesselsNearMe env_default 0 0 80 \<lparr>opt_minutesBack = None\<rparr> world0)) =
     [\<lparr>minLat = - (7505999378950827 / 9007199254740992), maxLat = 7505999378950827 / 9007199254740992,
       minLon = - (7505999378950827 / 9007199254740992), maxLon = 7505999378950827 / 9007199254740992,
       minutesBack = Some 60, response = Some simple\<rparr>]"
    using T80 [THEN conjunct2, THEN conjunct1]
    by (simp add: c m l latDelta_50 fl64_minus fl64_5_6_again world0_def)
  have z14: "zone_log (snd (fetchVesselsNearMe env_default 0 0 (1 / 4) \<lparr>opt_minutesBack = None\<rparr> world0)) =
     [\<lparr>minLat = - (4803839602528529 / 288230376151711744), maxLat = 4803839602528529 / 288230376151711744,
       minLon = - (4803839602528529 / 288230376151711744), maxLon = 4803839602528529 / 288230376151711744,
       minutesBack = Some 60, response = Some simple\<rparr>]"
    using T14 [THEN conjunct2, THEN conjunct1]
    by (simp add: c m l latDelta_1 fl64_minus fl64_1_60_again world0_def)
  have e80: "fetchVesselsNearMe env_default 0 0 80 \<lparr>opt_minutesBack = None\<rparr> world0
       = fetchVesselsNearMe env_default 0 0 50 \<lparr>opt_minutesBack = None\<rparr> world0"
    using T80 [THEN conjunct2, THEN conjunct2, THEN conjunct1] by (simp only: c)
  have lt: "(50::real) < 80" "(1 / 4 :: real) < 1" by simp_all
  have s80: "nauticalMilesToLatDelta 50 \<le> nauticalMilesToLatDelta 80"
    "nauticalMilesToLonDelta env_default 50 0 \<le> nauticalMilesToLonDelta env_default 80 0"
    using T80 [THEN conjunct2, THEN conjunct2, THEN conjunct2, THEN conjunct1] lt(1)
    by (simp_all only: c simp_thms)
  have s14: "nauticalMilesToLatDelta (1 / 4) \<le> nauticalMilesToLatDelta 1"
    "nauticalMilesToLonDelta env_default (1 / 4) 0 \<le> nauticalMilesToLonDelta env_default 1 0"
    using T14 [THEN conjunct2, THEN conjunct2, THEN conjunct2, THEN conjunct2] lt(2)
    by (simp_all only: c simp_thms)
  show ?thesis
    by (intro conjI z80 lt s80 z14 s14 e80)
qed

text \<open>Rounding can make the clamped radius and the caller's give the same box: below 1
  the largest double, 1 - 2^-53, divided by 60 rounds to the double that 1 / 60 rounds
  to, so at the equator the area searched is the area requested, not a larger one.\<close>

theorem fetchVesselsNearMe_same_box_counterexample:
  "(9007199254740991 / 9007199254740992 :: real) < 1
   \<and> fl64 (9007199254740991 / 9007199254740992) = 9007199254740991 / 9007199254740992
   \<and> nauticalMilesToLatDelta (clampNumber (9007199254740991 / 9007199254740992) 1 50)
       = nauticalMilesToLatDelta (9007199254740991 / 9007199254740992)
   \<and> nauticalMilesToLonDelta env_default (clampNumber (9007199254740991 / 9007199254740992) 1 50) 0
       = nauticalMilesToLonDelta env_default (9007199254740991 / 9007199254740992) 0"
proof -
  have d: "fl64 (9007199254740991 / 9007199254740992) = 9007199254740991 / 9007199254740992"
    by (subst fl64_eval [of _ 53]) (simp_all add: rne_def Let_def)
  have c: "clampNumber (9007199254740991 / 9007199254740992) 1 50 = 1"
    by (simp add: clampNumber_def)
  have e: "nauticalMilesToLatDelta (9007199254740991 / 9007199254740992) = nauticalMilesToLatDelta 1"
    unfolding latDelta_1 unfolding nauticalMilesToLatDelta_def by (rule fl64_below_one)
  show ?thesis
    unfolding c nauticalMilesToLonDelta_equator [OF env_default_cos] e using d by simp
qed







section \<open>Port mode\<close>

lemma fl64_of_nat: "n < 2 ^ 53 \<Longrightarrow> fl64 (real n) = real n"
proof -
  assume n: "n < 2 ^ 53"
  let ?k = "doublings 1074 (real n)"
  have "real n < real (2 ^ 53)" using n by (simp only: of_nat_less_iff)
  then have lt: "real n < 2 ^ 53" by simp
  have "real n * 2 ^ ?k = of_int (int n * 2 ^ ?k)" by simp
  then have "rne (real n * 2 ^ ?k) = real n * 2 ^ ?k" by (simp only: rne_of_int)
  then show ?thesis using lt by (simp add: fl64_def fl_pos_def Let_def)
qed

lemma Number_digits_exact: "digits_value s < 2 ^ 53 \<Longrightarrow> Number_digits s = int (digits_value s)"
  by (simp add: Number_digits_def fl64_of_nat)

















section \<open>Upstream failures\<close>

lemma request_cold_failure:
  assumes "cache w (buildCacheKey path (Some (sanitizeParams env params))) = None"
    and "apiKey env = Inr k"
    and "fetch env (length (http_log w)) path (sanitizeParams env params) = Response r"
  shows "http_body r = Malformed m \<Longrightarrow>
      request env path params ttl w =
        (Inl (ParseFailure path m), w\<lparr>http_log := http_log w @ [(path, sanitizeParams env params)]\<rparr>)"
    and "http_body r = Envelope p \<Longrightarrow> \<not> ok r \<or> env_status p \<noteq> Some ''success'' \<Longrightarrow>
      request env path params ttl w =
        (Inl (RequestFailed (case env_code p of None \<Rightarrow> String_int (http_status r) | Some c \<Rightarrow> c)
                            (case env_message p of None \<Rightarrow> ''Unknown error'' | Some m \<Rightarrow> m)),
         w\<lparr>http_log := http_log w @ [(path, sanitizeParams env params)]\<rparr>)"
  using assms by (auto simp: request_def readCache_def Let_def)

lemma request_upstream_failure:
  assumes "http_log (snd (request env path params cacheMs w)) \<noteq> http_log w"
    and "fetch env (length (http_log w)) path (sanitizeParams env params) = Response r"
  shows "http_body r = Malformed m \<Longrightarrow>
      request env path params cacheMs w =
        (Inl (ParseFailure path m),
         (after_lookup env (buildCacheKey path (Some (sanitizeParams env params))) cacheMs w)
           \<lparr>http_log := http_log w @ [(path, sanitizeParams env params)]\<rparr>)"
    and "http_body r = Envelope p \<Longrightarrow> \<not> ok r \<or> env_status p \<noteq> Some ''success'' \<Longrightarrow>
      request env path params cacheMs w =
        (Inl (RequestFailed (case env_code p of None \<Rightarrow> String_int (http_status r) | Some c \<Rightarrow> c)
                            (case env_message p of None \<Rightarrow> ''Unknown error'' | Some m \<Rightarrow> m)),
         (after_lookup env (buildCacheKey path (Some (sanitizeParams env params))) cacheMs w)
           \<lparr>http_log := http_log w @ [(path, sanitizeParams env params)]\<rparr>)"
  using assms
  by (auto simp: request_cases Let_def after_lookup_log
      split: option.splits sum.splits fetch_result.splits body.splits if_splits)

lemma typed_Inl: "fst r = Inl e \<Longrightarrow> typed cast r = (Inl e, snd r)"
  by (cases r) (simp add: typed_def)

lemma areaLoop_app:
  "areaLoop env mb boxes1 d w = (Inr d1, w1) \<Longrightarrow> boxes1 = [] \<or> length d1 < MAX_RESULTS env \<Longrightarrow>
   areaLoop env mb (boxes1 @ boxes2) d w = areaLoop env mb boxes2 d1 w1"
proof (induction boxes1 arbitrary: d w)
  case Nil
  then show ?case by simp
next
  case (Cons box boxes)
  from Cons.prems(2) have lt: "length d1 < MAX_RESULTS env" by simp
  obtain r w0 where z: "getVesselsInZone env (areaQuery box mb) w = (r, w0)"
    by (cases "getVesselsInZone env (areaQuery box mb) w")
  show ?case
  proof (cases r)
    case (Inl e)
    with Cons.prems(1) z show ?thesis by simp
  next
    case (Inr vessels)
    obtain d2 w2 where f: "forEachVessel env vessels d w0 = (d2, w2)"
      by (cases "forEachVessel env vessels d w0")
    show ?thesis
    proof (cases "MAX_RESULTS env \<le> length d2")
      case True
      with Cons.prems(1) z Inr f have "d1 = d2" by simp
      with True lt show ?thesis by simp
    next
      case False
      with Cons.prems(1) z Inr f have rec: "areaLoop env mb boxes d2 w2 = (Inr d1, w1)" by simp
      from lt have "boxes = [] \<or> length d1 < MAX_RESULTS env" by simp
      from Cons.IH [OF rec this] z Inr f False show ?thesis by simp
    qed
  qed
qed

lemma fetchVesselsInArea_fails:
  assumes "tokenizeAreaExpression env expression = Inr (boxes1 @ box # boxes2)"
    and "areaLoop env (formatMinutesBack env (opt_minutesBack options)) boxes1 [] w = (Inr d1, w1)"
    and "boxes1 = [] \<or> length d1 < MAX_RESULTS env"
    and "getVesselsInZone env (areaQuery box (formatMinutesBack env (opt_minutesBack options))) w1 = (Inl e, w2)"
  shows "fetchVesselsInArea env expression options w = (Inl e, w2)"
proof -
  let ?mb = "formatMinutesBack env (opt_minutesBack options)"
  have "areaLoop env ?mb (boxes1 @ box # boxes2) [] w = areaLoop env ?mb (box # boxes2) d1 w1"
    using assms(2,3) by (rule areaLoop_app)
  also have "\<dots> = (Inl e, w2)" using assms(4) by simp
  finally show ?thesis using assms(1) by (simp add: fetchVesselsInArea_def)
qed

lemma fetchVesselsNearMe_fails:
  "getVesselsInZone env (nearMeQuery env lat lon distance options) w = (Inl e, w1) \<Longrightarrow>
   fetchVesselsNearMe env lat lon distance options w = (Inl e, w1)"
  by (simp add: fetchVesselsNearMe_def)

lemma getVesselsInPort_swallows:
  "getVesselsInPort_then env shipPort w = (Inl e, w1) \<Longrightarrow> getVesselsInPort env shipPort w = ([], w1)"
  by (simp add: getVesselsInPort_def)

text \<open>
  C8 (as amended). When \<^verbatim>\<open>request\<close> goes upstream and the response is not JSON, it fails
  with the path and the parser's message; when the response is an envelope whose status
  is not \<open>success\<close>, or the HTTP status is not a success, it fails with the code of the
  envelope, or else the HTTP status, and the message of the envelope, or else
  \<open>Unknown error\<close>. In both cases the call is the only one made, and the cache is not
  written. Every typed operation of the client passes the failure on. A near-me search
  fails with the failure of its zone query, and an area search with the failure of the
  zone query of any of its boxes, whatever the boxes before it returned. The port mode is
  the exception: \<^verbatim>\<open>getVesselsInPort\<close> turns every failure into an empty list.
\<close>

theorem upstream_failure_surfaced_except_port_mode:
  "(http_log (snd (request env path params cacheMs w)) \<noteq> http_log w
      \<and> fetch env (length (http_log w)) path (sanitizeParams env params) = Response r
      \<and> http_body r = Malformed m \<longrightarrow>
      request env path params cacheMs w =
        (Inl (ParseFailure path m),
         (after_lookup env (buildCacheKey path (Some (sanitizeParams env params))) cacheMs w)
           \<lparr>http_log := http_log w @ [(path, sanitizeParams env params)]\<rparr>))
   \<and> (http_log (snd (request env path params cacheMs w)) \<noteq> http_log w
      \<and> fetch env (length (http_log w)) path (sanitizeParams env params) = Response r
      \<and> http_body r = Envelope p \<and> (\<not> ok r \<or> env_status p \<noteq> Some ''success'') \<longrightarrow>
      request env path params cacheMs w =
        (Inl (RequestFailed (case env_code p of None \<Rightarrow> String_int (http_status r) | Some c \<Rightarrow> c)
                            (case env_message p of None \<Rightarrow> ''Unknown error'' | Some m \<Rightarrow> m)),
         (after_lookup env (buildCacheKey path (Some (sanitizeParams env params))) cacheMs w)
           \<lparr>http_log := http_log w @ [(path, sanitizeParams env params)]\<rparr>))
   \<and> (fst (request env path params cacheMs w) = Inl e \<longrightarrow>
        typed asZoneVessels (request env path params cacheMs w) = (Inl e, snd (request env path params cacheMs w))
        \<and> typed asPortSearchResults (request env path params cacheMs w) = (Inl e, snd (request env path params cacheMs w))
        \<and> typed asPortVessels (request env path params cacheMs w) = (Inl e, snd (request env path params cacheMs w)))
   \<and> (getVesselsInZone env (nearMeQuery env lat lon distance options) w = (Inl e, w1) \<longrightarrow>
        fetchVesselsNearMe env lat lon distance options w = (Inl e, w1))
   \<and> (tokenizeAreaExpression env expression = Inr (boxes1 @ box # boxes2)
        \<and> areaLoop env (formatMinutesBack env (opt_minutesBack options)) boxes1 [] w = (Inr d1, w1)
        \<and> (boxes1 = [] \<or> length d1 < MAX_RESULTS env)
        \<and> getVesselsInZone env (areaQuery box (formatMinutesBack env (opt_minutesBack options))) w1 = (Inl e, w2) \<longrightarrow>
        fetchVesselsInArea env expression options w = (Inl e, w2))
   \<and> (getVesselsInPort_then env shipPort w = (Inl e, w1) \<longrightarrow>
        getVesselsInPort env shipPort w = ([], w1))"
proof (intro conjI impI)
  assume "http_log (snd (request env path params cacheMs w)) \<noteq> http_log w
      \<and> fetch env (length (http_log w)) path (sanitizeParams env params) = Response r
      \<and> http_body r = Malformed m"
  then show "request env path params cacheMs w =
        (Inl (ParseFailure path m),
         (after_lookup env (buildCacheKey path (Some (sanitizeParams env params))) cacheMs w)
           \<lparr>http_log := http_log w @ [(path, sanitizeParams env params)]\<rparr>)"
    using request_upstream_failure(1) by blast
next
  assume "http_log (snd (request env path params cacheMs w)) \<noteq> http_log w
      \<and> fetch env (length (http_log w)) path (sanitizeParams env params) = Response r
      \<and> http_body r = Envelope p \<and> (\<not> ok r \<or> env_status p \<noteq> Some ''success'')"
  then show "request env path params cacheMs w =
        (Inl (RequestFailed (case env_code p of None \<Rightarrow> String_int (http_status r) | Some c \<Rightarrow> c)
                            (case env_message p of None \<Rightarrow> ''Unknown error'' | Some m \<Rightarrow> m)),
         (after_lookup env (buildCacheKey path (Some (sanitizeParams env params))) cacheMs w)
           \<lparr>http_log := http_log w @ [(path, sanitizeParams env params)]\<rparr>)"
    using request_upstream_failure(2) by blast
next
  assume a: "fst (request env path params cacheMs w) = Inl e"
  from a show "typed asZoneVessels (request env path params cacheMs w) = (Inl e, snd (request env path params cacheMs w))"
    by (rule typed_Inl)
  from a show "typed asPortSearchResults (request env path params cacheMs w) = (Inl e, snd (request env path params cacheMs w))"
    by (rule typed_Inl)
  from a show "typed asPortVessels (request env path params cacheMs w) = (Inl e, snd (request env path params cacheMs w))"
    by (rule typed_Inl)
next
  assume "getVesselsInZone env (nearMeQuery env lat lon distance options) w = (Inl e, w1)"
  then show "fetchVesselsNearMe env lat lon distance options w = (Inl e, w1)"
    by (rule fetchVesselsNearMe_fails)
next
  assume "tokenizeAreaExpression env expression = Inr (boxes1 @ box # boxes2)
        \<and> areaLoop env (formatMinutesBack env (opt_minutesBack options)) boxes1 [] w = (Inr d1, w1)
        \<and> (boxes1 = [] \<or> length d1 < MAX_RESULTS env)
        \<and> getVesselsInZone env (areaQuery box (formatMinutesBack env (opt_minutesBack options))) w1 = (Inl e, w2)"
  then show "fetchVesselsInArea env expression options w = (Inl e, w2)"
    using fetchVesselsInArea_fails by blast
next
  assume "getVesselsInPort_then env shipPort w = (Inl e, w1)"
  then show "getVesselsInPort env shipPort w = ([], w1)"
    by (rule getVesselsInPort_swallows)
qed

lemma String_pvalue_fetch: "String_pvalue (env\<lparr>fetch := f\<rparr>) v = String_pvalue env v"
  by (cases v) simp_all

lemma sanitizeParams_fetch: "sanitizeParams (env\<lparr>fetch := f\<rparr>) params = sanitizeParams env params"
  by (simp add: sanitizeParams_def String_pvalue_fetch cong: if_cong option.case_cong)

lemma normalizeBox_fetch: "normalizeBox (env\<lparr>fetch := f\<rparr>) = normalizeBox env"
  by (rule ext) (simp add: normalizeBox_def)

lemma parseBoundingBoxToken_fetch:
  "parseBoundingBoxToken (env\<lparr>fetch := f\<rparr>) = parseBoundingBoxToken env"
  by (rule ext) (simp add: parseBoundingBoxToken_def Let_def cong: if_cong option.case_cong list.case_cong)

lemma tokenizeAreaExpression_fetch:
  "tokenizeAreaExpression (env\<lparr>fetch := f\<rparr>) expression = tokenizeAreaExpression env expression"
  by (simp add: tokenizeAreaExpression_def normalizeBox_fetch parseBoundingBoxToken_fetch)

lemma env_failing_fields:
  "apiKey env_failing = Inr ''key''"
  "MAX_RESULTS env_failing = 200"
  "DEFAULT_MINUTES_BACK env_failing = 60"
  "fetch env_failing 0 ''vessel/zone'' params = zone_response [named_vessel]"
  "fetch env_failing (Suc k) ''vessel/zone'' params = rate_limited"
  "fetch env_failing k ''port/inport'' params = not_json"
  "fetch env_failing k ''port/search'' params = not_json"
  by (simp_all add: env_failing_def env_default_def apiKey_def)

lemma tokens_failing: "tokenizeAreaExpression env_failing two_boxes = Inr [box1, box2]"
  using tokens_overlap
  by (simp add: env_failing_def env_overlap_def tokenizeAreaExpression_fetch)

lemma keys_failing:
  "buildCacheKey ''vessel/zone'' (Some (sanitizeParams env_failing (Some (zoneParams (areaQuery box1 60)))))
   \<noteq> buildCacheKey ''vessel/zone'' (Some (sanitizeParams env_failing (Some (zoneParams (areaQuery box2 60)))))"
  using keys_overlap
  by (simp add: env_failing_def env_overlap_def sanitizeParams_fetch)

lemma world0_logs: "http_log world0 = []" "zone_log world0 = []" "cache world0 key = None"
  by (simp_all add: world0_def)

lemma Number_digits_7: "Number_digits ''7'' = 7"
  by (simp add: Number_digits_exact digits_value_def)

lemma port_failure:
  "getVesselsInPort_then env_failing (Some ''7'') world0 =
     (Inl (ParseFailure ''port/inport'' ''Unexpected token <''),
      world0\<lparr>http_log := [(''port/inport'', sanitizeParams env_failing (Some [(''port_id'', PNum 7)]))]\<rparr>)"
proof -
  have r: "resolvePortIdentifier env_failing (Some ''7'') world0 =
      (Inr (Some \<lparr>portId = Some 7, unloco = None, ref_name = Some ''7''\<rparr>), world0)"
    by (simp add: resolvePortIdentifier_def Let_def trim_def isWhiteSpace_def isDigit_def Number_digits_7)
  have c: "cache world0 (buildCacheKey ''port/inport''
      (Some (sanitizeParams env_failing (Some [(''port_id'', PNum 7)])))) = None"
    by (simp add: world0_def)
  have f: "fetch env_failing (length (http_log world0)) ''port/inport''
      (sanitizeParams env_failing (Some [(''port_id'', PNum 7)]))
      = Response \<lparr>ok = True, http_status = 200, http_body = Malformed ''Unexpected token <''\<rparr>"
    by (simp add: env_failing_fields not_json_def)
  have q: "request env_failing ''port/inport'' (Some [(''port_id'', PNum 7)]) 60000 world0 =
     (Inl (ParseFailure ''port/inport'' ''Unexpected token <''),
      world0\<lparr>http_log := http_log world0 @
        [(''port/inport'', sanitizeParams env_failing (Some [(''port_id'', PNum 7)]))]\<rparr>)"
    by (rule request_cold_failure(1) [OF c env_failing_fields(1) f]) simp
  have g: "client_getVesselsInPort env_failing \<lparr>portId = Some 7, unloco = None, ref_name = Some ''7''\<rparr> world0 =
     (Inl (ParseFailure ''port/inport'' ''Unexpected token <''),
      world0\<lparr>http_log := [(''port/inport'', sanitizeParams env_failing (Some [(''port_id'', PNum 7)]))]\<rparr>)"
    by (simp add: client_getVesselsInPort_def Let_def q typed_def world0_logs)
  show ?thesis
    by (simp add: getVesselsInPort_then_def r g)
qed

lemma getVesselsInZone_rate_limited:
  assumes "cache w (buildCacheKey ''vessel/zone'' (Some (sanitizeParams env_failing (Some (zoneParams query))))) = None"
    and "http_log w \<noteq> []"
  shows "getVesselsInZone env_failing query w =
     (Inl (RequestFailed ''ERR_RATE'' ''Rate limit exceeded''),
      w\<lparr>zone_log := zone_log w @ [query],
        http_log := http_log w @ [(''vessel/zone'', sanitizeParams env_failing (Some (zoneParams query)))]\<rparr>)"
proof -
  let ?w = "w\<lparr>zone_log := zone_log w @ [query]\<rparr>"
  let ?r = "\<lparr>ok = False, http_status = 429,
       http_body = Envelope \<lparr>env_status = Some ''error'', env_data = NoData,
                              env_message = Some ''Rate limit exceeded'', env_code = Some ''ERR_RATE''\<rparr>\<rparr>"
  let ?p = "\<lparr>env_status = Some ''error'', env_data = NoData,
                              env_message = Some ''Rate limit exceeded'', env_code = Some ''ERR_RATE''\<rparr>"
  obtain k where k: "length (http_log w) = Suc k"
    using assms(2) by (cases "http_log w") simp_all
  have c: "cache ?w (buildCacheKey ''vessel/zone'' (Some (sanitizeParams env_failing (Some (zoneParams query))))) = None"
    using assms(1) by simp
  have f: "fetch env_failing (length (http_log ?w)) ''vessel/zone''
      (sanitizeParams env_failing (Some (zoneParams query))) = Response ?r"
    using k by (simp add: env_failing_fields rate_limited_def)
  have b: "http_body ?r = Envelope ?p" by simp
  have n: "\<not> ok ?r \<or> env_status ?p \<noteq> Some ''success''" by simp
  from request_cold_failure(2) [OF c env_failing_fields(1) f b n, of 300000]
  show ?thesis by (simp add: getVesselsInZone_def typed_def)
qed

theorem upstream_failure_surfaced_except_port_mode_witness:
  "request env_failing ''port/inport'' (Some [(''port_id'', PNum 7)]) 60000 world0 =
     (Inl (ParseFailure ''port/inport'' ''Unexpected token <''),
      world0\<lparr>http_log := [(''port/inport'', sanitizeParams env_failing (Some [(''port_id'', PNum 7)]))]\<rparr>)
   \<and> fst (request env_failing ''vessel/zone'' (Some box_params) 300
           (world0\<lparr>http_log := [(''vessel/zone'', [])]\<rparr>))
       = Inl (RequestFailed ''ERR_RATE'' ''Rate limit exceeded'')
   \<and> length (http_log (snd (request env_failing ''vessel/zone'' (Some box_params) 300
           (world0\<lparr>http_log := [(''vessel/zone'', [])]\<rparr>)))) = 2
   \<and> fst (searchPorts env_failing ''Hamburg'' world0) = Inl (ParseFailure ''port/search'' ''Unexpected token <'')
   \<and> fst (fetchVesselsNearMe env_failing 0 7 30 \<lparr>opt_minutesBack = None\<rparr>
           (world0\<lparr>http_log := [(''vessel/zone'', [])]\<rparr>))
       = Inl (RequestFailed ''ERR_RATE'' ''Rate limit exceeded'')
   \<and> fst (fetchVesselsInArea env_failing two_boxes \<lparr>opt_minutesBack = None\<rparr> world0)
       = Inl (RequestFailed ''ERR_RATE'' ''Rate limit exceeded'')
   \<and> length (http_log (snd (fetchVesselsInArea env_failing two_boxes \<lparr>opt_minutesBack = None\<rparr> world0))) = 2
   \<and> fst (getVesselsInPort env_failing (Some ''7'') world0) = []"
proof -
  let ?one = "world0\<lparr>http_log := [(''vessel/zone'', [])]\<rparr>"
  let ?opts = "\<lparr>opt_minutesBack = None\<rparr>"
  let ?pp = "Some [(''port_id'', PNum 7)]"
  let ?nj = "\<lparr>ok = True, http_status = 200, http_body = Malformed ''Unexpected token <''\<rparr>"
  let ?rl = "\<lparr>ok = False, http_status = 429,
       http_body = Envelope \<lparr>env_status = Some ''error'', env_data = NoData,
                              env_message = Some ''Rate limit exceeded'', env_code = Some ''ERR_RATE''\<rparr>\<rparr>"
  let ?p = "\<lparr>env_status = Some ''error'', env_data = NoData,
                              env_message = Some ''Rate limit exceeded'', env_code = Some ''ERR_RATE''\<rparr>"
  have rd: "readCache env_failing key world0 = (None, world0)" for key
    by (simp add: readCache_def world0_logs)
  have rd1: "readCache env_failing key ?one = (None, ?one)" for key
    by (simp add: readCache_def world0_logs)
  have al: "after_lookup env_failing key ttl world0 = world0" "after_lookup env_failing key ttl ?one = ?one" for key ttl
    by (simp_all add: after_lookup_def rd rd1)
  have l1: "http_log (snd (request env_failing ''port/inport'' ?pp 60000 world0)) \<noteq> http_log world0"
    using request_miss_log [OF env_failing_fields(1), of 60000 "''port/inport''" ?pp world0]
    by (simp add: rd)
  have f1: "fetch env_failing (length (http_log world0)) ''port/inport'' (sanitizeParams env_failing ?pp) = Response ?nj"
    by (simp add: env_failing_fields not_json_def)
  have c1: "request env_failing ''port/inport'' ?pp 60000 world0 =
     (Inl (ParseFailure ''port/inport'' ''Unexpected token <''),
      world0\<lparr>http_log := [(''port/inport'', sanitizeParams env_failing ?pp)]\<rparr>)"
    using upstream_failure_surfaced_except_port_mode [where env = env_failing and path = "''port/inport''"
        and params = ?pp and cacheMs = 60000 and w = world0 and r = ?nj and m = "''Unexpected token <''",
        THEN conjunct1] l1 f1
    by (simp add: al world0_logs)
  have l2: "http_log (snd (request env_failing ''vessel/zone'' (Some box_params) 300 ?one)) =
      http_log ?one @ [(''vessel/zone'', sanitizeParams env_failing (Some box_params))]"
    using request_miss_log [OF env_failing_fields(1), of 300 "''vessel/zone''" "Some box_params" ?one]
    by (simp add: rd1)
  have f2: "fetch env_failing (length (http_log ?one)) ''vessel/zone'' (sanitizeParams env_failing (Some box_params))
      = Response ?rl"
    by (simp add: env_failing_fields rate_limited_def)
  have c2: "fst (request env_failing ''vessel/zone'' (Some box_params) 300 ?one)
       = Inl (RequestFailed ''ERR_RATE'' ''Rate limit exceeded'')"
    using upstream_failure_surfaced_except_port_mode [where env = env_failing and path = "''vessel/zone''"
        and params = "Some box_params" and cacheMs = 300 and w = ?one and r = ?rl and p = ?p,
        THEN conjunct2, THEN conjunct1] l2 f2
    by simp
  have c3: "length (http_log (snd (request env_failing ''vessel/zone'' (Some box_params) 300 ?one))) = 2"
    unfolding l2 by simp
  let ?sp = "Some [(''name'', PStr ''Hamburg'')]"
  have f4: "fetch env_failing (length (http_log world0)) ''port/search'' (sanitizeParams env_failing ?sp) = Response ?nj"
    by (simp add: env_failing_fields not_json_def)
  have r4: "fst (request env_failing ''port/search'' ?sp (5 * 60 * 1000) world0)
      = Inl (ParseFailure ''port/search'' ''Unexpected token <'')"
    using request_cold_failure(1) [OF world0_logs(3) env_failing_fields(1) f4, of "''Unexpected token <''" "5 * 60 * 1000"]
    by simp
  have c4: "fst (searchPorts env_failing ''Hamburg'' world0) = Inl (ParseFailure ''port/search'' ''Unexpected token <'')"
    using upstream_failure_surfaced_except_port_mode [where env = env_failing and path = "''port/search''"
        and params = ?sp and cacheMs = "5 * 60 * 1000" and w = world0
        and e = "ParseFailure ''port/search'' ''Unexpected token <''",
        THEN conjunct2, THEN conjunct2, THEN conjunct1] r4
    by (simp add: searchPorts_def)
  let ?q = "nearMeQuery env_failing 0 7 30 ?opts"
  have z5: "getVesselsInZone env_failing ?q ?one =
     (Inl (RequestFailed ''ERR_RATE'' ''Rate limit exceeded''),
      ?one\<lparr>zone_log := zone_log ?one @ [?q],
        http_log := http_log ?one @ [(''vessel/zone'', sanitizeParams env_failing (Some (zoneParams ?q)))]\<rparr>)"
    by (rule getVesselsInZone_rate_limited) (simp_all add: world0_logs)
  have c5: "fst (fetchVesselsNearMe env_failing 0 7 30 ?opts ?one)
       = Inl (RequestFailed ''ERR_RATE'' ''Rate limit exceeded'')"
    using upstream_failure_surfaced_except_port_mode [where env = env_failing and lat = 0 and lon = 7
        and distance = 30 and options = ?opts and w = ?one
        and e = "RequestFailed ''ERR_RATE'' ''Rate limit exceeded''"
        and ?w1.0 = "?one\<lparr>zone_log := zone_log ?one @ [?q],
          http_log := http_log ?one @ [(''vessel/zone'', sanitizeParams env_failing (Some (zoneParams ?q)))]\<rparr>",
        THEN conjunct2, THEN conjunct2, THEN conjunct2, THEN conjunct1] z5
    by simp
  let ?p1 = "sanitizeParams env_failing (Some (zoneParams (areaQuery box1 60)))"
  let ?p2 = "sanitizeParams env_failing (Some (zoneParams (areaQuery box2 60)))"
  let ?w1 = "writeCache env_failing (buildCacheKey ''vessel/zone'' (Some ?p1)) (ZoneVessels [named_vessel]) 300000
        (world0\<lparr>zone_log := zone_log world0 @ [areaQuery box1 60],
           http_log := http_log world0 @ [(''vessel/zone'', ?p1)]\<rparr>)"
  let ?w2 = "?w1\<lparr>zone_log := zone_log ?w1 @ [areaQuery box2 60],
        http_log := http_log ?w1 @ [(''vessel/zone'', ?p2)]\<rparr>"
  let ?d1 = "[(''2473'', named_ship)]"
  have mb: "formatMinutesBack env_failing (opt_minutesBack ?opts) = 60"
    by (simp add: formatMinutesBack_def env_failing_fields)
  have z1: "getVesselsInZone env_failing (areaQuery box1 60) world0 = (Inr [named_vessel], ?w1)"
    by (rule getVesselsInZone_cold) (simp_all add: world0_def env_failing_fields)
  have f1': "forEachVessel env_failing [named_vessel] [] ?w1 = (?d1, ?w1)"
    by (simp add: forEachVessel_step [OF map_named] named_ship_fields dedup_has_def
        del: forEachVessel.simps(2))
  have loop1: "areaLoop env_failing 60 [box1] [] world0 = (Inr ?d1, ?w1)"
    using areaLoop_step_more [OF z1 f1', of "[]"] by (simp add: env_failing_fields)
  have lg1: "http_log ?w1 = [(''vessel/zone'', ?p1)]"
    by (simp add: writeCache_log world0_def)
  have ch1: "cache ?w1 (buildCacheKey ''vessel/zone'' (Some ?p2)) = None"
    using keys_failing by (simp add: writeCache_def now_def world0_def)
  have z2: "getVesselsInZone env_failing (areaQuery box2 60) ?w1 =
      (Inl (RequestFailed ''ERR_RATE'' ''Rate limit exceeded''), ?w2)"
    by (rule getVesselsInZone_rate_limited [OF ch1]) (simp add: lg1)
  have pre: "tokenizeAreaExpression env_failing two_boxes = Inr ([box1] @ box2 # [])
        \<and> areaLoop env_failing (formatMinutesBack env_failing (opt_minutesBack ?opts)) [box1] [] world0 = (Inr ?d1, ?w1)
        \<and> ([box1] = [] \<or> length ?d1 < MAX_RESULTS env_failing)
        \<and> getVesselsInZone env_failing (areaQuery box2 (formatMinutesBack env_failing (opt_minutesBack ?opts))) ?w1
            = (Inl (RequestFailed ''ERR_RATE'' ''Rate limit exceeded''), ?w2)"
    unfolding mb using loop1 z2 by (simp add: tokens_failing env_failing_fields)
  have a6: "fetchVesselsInArea env_failing two_boxes ?opts world0 =
      (Inl (RequestFailed ''ERR_RATE'' ''Rate limit exceeded''), ?w2)"
    using upstream_failure_surfaced_except_port_mode [where env = env_failing and expression = two_boxes
        and options = ?opts and w = world0 and ?boxes1.0 = "[box1]" and box = box2 and ?boxes2.0 = "[]"
        and ?d1.0 = ?d1 and ?w1.0 = ?w1 and ?w2.0 = ?w2
        and e = "RequestFailed ''ERR_RATE'' ''Rate limit exceeded''",
        THEN conjunct2, THEN conjunct2, THEN conjunct2, THEN conjunct2, THEN conjunct1] pre
    by (rule mp)
  have c6: "fst (fetchVesselsInArea env_failing two_boxes ?opts world0)
       = Inl (RequestFailed ''ERR_RATE'' ''Rate limit exceeded'')"
    unfolding a6 by simp
  have c7: "length (http_log (snd (fetchVesselsInArea env_failing two_boxes ?opts world0))) = 2"
    unfolding a6 by (simp add: lg1)
  have c8: "fst (getVesselsInPort env_failing (Some ''7'') world0) = []"
    using upstream_failure_surfaced_except_port_mode [where env = env_failing and shipPort = "Some ''7''"
        and w = world0 and e = "ParseFailure ''port/inport'' ''Unexpected token <''"
        and ?w1.0 = "world0\<lparr>http_log := [(''port/inport'', sanitizeParams env_failing (Some [(''port_id'', PNum 7)]))]\<rparr>",
        THEN conjunct2, THEN conjunct2, THEN conjunct2, THEN conjunct2, THEN conjunct2] port_failure
    by simp
  show ?thesis
    by (intro conjI c1 c2 c3 c4 c5 c6 c7 c8)
qed

text \<open>The port listing of port 7 answers with text that is not JSON: the promise of the
  port mode is rejected with the parse failure, and the caller is handed an empty list,
  after the one upstream call.\<close>

theorem getVesselsInPort_swallows_failure_counterexample:
  "fst (getVesselsInPort_then env_failing (Some ''7'') world0)
     = Inl (ParseFailure ''port/inport'' ''Unexpected token <'')
   \<and> fst (getVesselsInPort env_failing (Some ''7'') world0) = []
   \<and> length (http_log (snd (getVesselsInPort env_failing (Some ''7'') world0))) = 1"
  by (simp add: getVesselsInPort_def port_failure)

end
